theory Spec2Isabelle
  imports Main
begin

section \<open>The standard library, as far as the packages call it\<close>

text \<open>
  A Go string is a sequence of bytes; \<open>string\<close> (a list of \<open>char\<close>, one per byte) is
  that sequence. An error is modelled by its message.
\<close>

type_synonym error = string

subsection \<open>unicode/utf8 and unicode\<close>

definition byte :: "char \<Rightarrow> nat" where
  "byte c = of_char c"

definition RuneError :: nat where
  "RuneError = 0xFFFD"

definition isCont :: "char \<Rightarrow> bool" where
  "isCont c = (0x80 \<le> byte c \<and> byte c \<le> 0xBF)"

text \<open>
  \<open>utf8.DecodeRuneInString\<close>: the code point at the head of the string and its width in
  bytes; an invalid or truncated encoding gives \<open>(RuneError, 1)\<close>, the empty string
  \<open>(RuneError, 0)\<close>. The ranges of the second byte are the ones of the Unicode standard
  (no overlong forms, no surrogates, nothing beyond U+10FFFF).
\<close>

fun DecodeRuneInString :: "string \<Rightarrow> nat \<times> nat" where
  "DecodeRuneInString [] = (RuneError, 0)"
| "DecodeRuneInString (c # s) =
     (let b0 = byte c in
      if b0 < 0x80 then (b0, 1)
      else if 0xC2 \<le> b0 \<and> b0 \<le> 0xDF then
        (case s of
           c1 # _ \<Rightarrow>
             if isCont c1 then ((b0 - 0xC0) * 64 + (byte c1 - 0x80), 2) else (RuneError, 1)
         | _ \<Rightarrow> (RuneError, 1))
      else if 0xE0 \<le> b0 \<and> b0 \<le> 0xEF then
        (case s of
           c1 # c2 # _ \<Rightarrow>
             if (if b0 = 0xE0 then 0xA0 else 0x80) \<le> byte c1
                \<and> byte c1 \<le> (if b0 = 0xED then 0x9F else 0xBF) \<and> isCont c2
             then ((b0 - 0xE0) * 4096 + (byte c1 - 0x80) * 64 + (byte c2 - 0x80), 3)
             else (RuneError, 1)
         | _ \<Rightarrow> (RuneError, 1))
      else if 0xF0 \<le> b0 \<and> b0 \<le> 0xF4 then
        (case s of
           c1 # c2 # c3 # _ \<Rightarrow>
             if (if b0 = 0xF0 then 0x90 else 0x80) \<le> byte c1
                \<and> byte c1 \<le> (if b0 = 0xF4 then 0x8F else 0xBF) \<and> isCont c2 \<and> isCont c3
             then ((b0 - 0xF0) * 262144 + (byte c1 - 0x80) * 4096
                   + (byte c2 - 0x80) * 64 + (byte c3 - 0x80), 4)
             else (RuneError, 1)
         | _ \<Rightarrow> (RuneError, 1))
      else (RuneError, 1))"

text \<open>
  The iteration \<open>for i, r := range s\<close> over a string: the runes of \<open>s\<close> in order, each
  with the bytes that encode it. The width of a rune of a non-empty string is at least
  one, so dropping \<open>width - 1\<close> bytes of the tail is dropping \<open>width\<close> bytes of the string.
\<close>

fun runes :: "string \<Rightarrow> (nat \<times> string) list" where
  "runes [] = []"
| "runes (c # s) =
     (fst (DecodeRuneInString (c # s)), take (snd (DecodeRuneInString (c # s))) (c # s))
       # runes (drop (snd (DecodeRuneInString (c # s)) - 1) s)"

text \<open>\<open>unicode.IsSpace\<close>: the code points of the Unicode property White_Space.\<close>

definition IsSpace :: "nat \<Rightarrow> bool" where
  "IsSpace r =
     ((0x09 \<le> r \<and> r \<le> 0x0D) \<or> r = 0x20 \<or> r = 0x85 \<or> r = 0xA0 \<or> r = 0x1680
      \<or> (0x2000 \<le> r \<and> r \<le> 0x200A) \<or> r = 0x2028 \<or> r = 0x2029 \<or> r = 0x202F
      \<or> r = 0x205F \<or> r = 0x3000)"

subsection \<open>strings\<close>

text \<open>\<open>strings.HasPrefix\<close> and \<open>strings.Contains\<close> of the standard library, on byte strings.\<close>

fun HasPrefix :: "string \<Rightarrow> string \<Rightarrow> bool" where
  "HasPrefix s [] = True"
| "HasPrefix [] (p # ps) = False"
| "HasPrefix (c # s) (p # ps) = (c = p \<and> HasPrefix s ps)"

fun Contains :: "string \<Rightarrow> string \<Rightarrow> bool" where
  "Contains [] substr = (substr = [])"
| "Contains (c # s) substr = (HasPrefix (c # s) substr \<or> Contains s substr)"

text \<open>
  \<open>strings.Fields\<close> is \<open>strings.FieldsFunc(s, unicode.IsSpace)\<close> (with a fast path for
  ASCII that computes the same). The loop keeps the field being read, if any: \<open>None\<close>
  is \<open>start < 0\<close> of the library's loop.
\<close>

fun fieldsLoop :: "(nat \<times> string) list \<Rightarrow> string option \<Rightarrow> string list" where
  "fieldsLoop [] None = []"
| "fieldsLoop [] (Some cur) = [cur]"
| "fieldsLoop ((r, bs) # rs) None =
     (if IsSpace r then fieldsLoop rs None else fieldsLoop rs (Some bs))"
| "fieldsLoop ((r, bs) # rs) (Some cur) =
     (if IsSpace r then cur # fieldsLoop rs None else fieldsLoop rs (Some (cur @ bs)))"

definition Fields :: "string \<Rightarrow> string list" where
  "Fields s = fieldsLoop (runes s) None"

text \<open>
  \<open>strings.ToLower\<close> on the ASCII letters. The library maps a byte of \<open>0x80\<close> and above
  through the Unicode case tables (and an invalid encoding to U+FFFD); here such a byte
  is left as it is. No code point outside ASCII has one of the letters of \<open>bearer\<close> as
  its lower case, so the one comparison the source makes, \<open>ToLower(x) != "bearer"\<close>, has
  the same outcome.
\<close>

definition toLowerByte :: "char \<Rightarrow> char" where
  "toLowerByte c =
     (case map_of (zip ''ABCDEFGHIJKLMNOPQRSTUVWXYZ'' ''abcdefghijklmnopqrstuvwxyz'') c of
        Some l \<Rightarrow> l
      | None \<Rightarrow> c)"

definition ToLower :: "string \<Rightarrow> string" where
  "ToLower s = map toLowerByte s"

text \<open>\<open>strings.Index\<close>: the offset of the first occurrence of \<open>substr\<close>, \<open>None\<close> for \<open>-1\<close>.\<close>

fun Index :: "string \<Rightarrow> string \<Rightarrow> nat option" where
  "Index [] substr = (if substr = [] then Some 0 else None)"
| "Index (c # s) substr =
     (if HasPrefix (c # s) substr then Some 0 else map_option Suc (Index s substr))"

lemma Index_bound: "Index s substr = Some m \<Longrightarrow> m + length substr \<le> length s"
proof (induction s arbitrary: m)
  case Nil
  then show ?case by (simp split: if_splits)
next
  case (Cons c s)
  have pre: "HasPrefix t p \<Longrightarrow> length p \<le> length t" for t p :: string
    by (induction t p rule: HasPrefix.induct) auto
  from Cons show ?case
    by (auto split: if_splits dest: pre)
qed

text \<open>
  \<open>strings.Split(s, sep)\<close> is \<open>genSplit(s, sep, 0, -1)\<close>. An empty separator explodes the
  string into its UTF-8 sequences (none for the empty string; a byte that starts no valid
  sequence stands alone, where older releases put U+FFFD). Otherwise the loop cuts at
  each occurrence found by \<open>Index\<close>, left to right, and ends with the rest; the library
  runs it \<open>Count(s, sep)\<close> times, which is when \<open>Index\<close> finds nothing more.
\<close>

definition explode :: "string \<Rightarrow> string list" where
  "explode s = map snd (runes s)"

function splitLoop :: "string \<Rightarrow> string \<Rightarrow> string list" where
  "splitLoop s sep =
     (if sep = [] then [s]
      else case Index s sep of
             None \<Rightarrow> [s]
           | Some m \<Rightarrow> take m s # splitLoop (drop (m + length sep) s) sep)"
  by pat_completeness auto
termination
proof (relation "measure (\<lambda>(s, sep). length s)")
  show "wf (measure (\<lambda>(s, sep). length s))" by simp
next
  fix s sep :: string and m :: nat
  assume "sep \<noteq> []" and "Index s sep = Some m"
  then have "m + length sep \<le> length s" and "0 < length sep"
    by (auto dest: Index_bound)
  then have "length s - (m + length sep) < length s"
    by arith
  then show "((drop (m + length sep) s, sep), (s, sep)) \<in> measure (\<lambda>(s, sep). length s)"
    by simp
qed

declare splitLoop.simps [simp del]

definition Split :: "string \<Rightarrow> string \<Rightarrow> string list" where
  "Split s sep = (if sep = [] then explode s else splitLoop s sep)"

subsection \<open>strconv\<close>

datatype NumError = ErrSyntax | ErrRange

definition digitVal :: "char \<Rightarrow> nat option" where
  "digitVal c = (if 0x30 \<le> byte c \<and> byte c \<le> 0x39 then Some (byte c - 0x30) else None)"

text \<open>
  The digit loop of \<open>strconv.ParseUint\<close> in base 10, on the value read so far: a byte
  that is no decimal digit is a syntax error (the underscore too: it is accepted for base
  0 only); a value above \<open>maxVal\<close> is a range error, reported at the digit that exceeds
  it. The library computes in \<open>uint64\<close> and tests for the overflow before it happens;
  on unbounded naturals the two tests are the one comparison with \<open>maxVal\<close>.
\<close>

fun parseDigits :: "nat \<Rightarrow> nat \<Rightarrow> string \<Rightarrow> NumError + nat" where
  "parseDigits maxVal n [] = Inr n"
| "parseDigits maxVal n (c # s) =
     (case digitVal c of
        None \<Rightarrow> Inl ErrSyntax
      | Some d \<Rightarrow> if n * 10 + d > maxVal then Inl ErrRange else parseDigits maxVal (n * 10 + d) s)"

text \<open>\<open>strconv.ParseUint(s, 10, bitSize)\<close> for a bit size from 1 to 64.\<close>

definition ParseUint :: "string \<Rightarrow> nat \<Rightarrow> NumError + nat" where
  "ParseUint s bitSize = (if s = [] then Inl ErrSyntax else parseDigits (2 ^ bitSize - 1) 0 s)"

text \<open>
  \<open>strconv.ParseInt(s, 10, bitSize)\<close>: an optional sign, then \<open>ParseUint\<close> on the rest
  with the same bit size; the magnitude must fit the signed range.
\<close>

definition ParseInt :: "string \<Rightarrow> nat \<Rightarrow> NumError + int" where
  "ParseInt s bitSize =
     (case s of
        [] \<Rightarrow> Inl ErrSyntax
      | c # rest \<Rightarrow>
          (let neg = (c = CHR ''-'');
               s1 = (if c = CHR ''+'' \<or> c = CHR ''-'' then rest else s)
           in case ParseUint s1 bitSize of
                Inl ErrSyntax \<Rightarrow> Inl ErrSyntax
              | Inl ErrRange \<Rightarrow> Inl ErrRange
              | Inr un \<Rightarrow>
                  if \<not> neg \<and> un \<ge> 2 ^ (bitSize - 1) then Inl ErrRange
                  else if neg \<and> un > 2 ^ (bitSize - 1) then Inl ErrRange
                  else Inr (if neg then - int un else int un)))"

text \<open>\<open>strconv.ParseBool\<close>: the twelve accepted spellings.\<close>

definition ParseBool :: "string \<Rightarrow> NumError + bool" where
  "ParseBool str =
     (if str \<in> set [''1'', ''t'', ''T'', ''TRUE'', ''true'', ''True''] then Inr True
      else if str \<in> set [''0'', ''f'', ''F'', ''FALSE'', ''false'', ''False''] then Inr False
      else Inl ErrSyntax)"

text \<open>The verb \<open>%d\<close> of package \<open>fmt\<close> on an integer: its decimal digits, with a minus sign.\<close>

fun showNat :: "nat \<Rightarrow> string" where
  "showNat n =
     (if n < 10 then [''0123456789'' ! n]
      else showNat (n div 10) @ [''0123456789'' ! (n mod 10)])"

declare showNat.simps [simp del]

definition sprintInt :: "int \<Rightarrow> string" where
  "sprintInt i = (if i < 0 then ''-'' @ showNat (nat (- i)) else showNat (nat i))"

subsection \<open>net/http: the request\<close>

text \<open>
  An uploaded part, \<open>multipart.FileHeader\<close>: the client's file name, the declared size
  and what \<open>Open()\<close> gives, an error or the bytes of the stream.
\<close>

record FileHeader =
  fhFilename :: string
  fhSize :: int
  fhOpen :: "error + string"

text \<open>
  \<open>http.Request\<close>, as far as the helpers read it.
  \<^item> \<open>rHeader\<close>: the values of each header, under its canonical name.
  \<^item> \<open>rForm\<close>: the field \<open>r.Form\<close>, \<open>None\<close> while it is \<open>nil\<close> (no parse has run).
  \<^item> \<open>rParsedForm\<close>: what a parse of the URL query and the body stores into \<open>r.Form\<close>
    (body values before query values).
  \<^item> \<open>rPathValues\<close>: \<open>r.PathValue\<close>, the empty string for a name the route does not bind.
  \<^item> \<open>rBody\<close>: what \<open>io.ReadAll(r.Body)\<close> gives.
  \<^item> \<open>rMultipart\<close>: what \<open>r.ParseMultipartForm(maxMemory)\<close> gives, an error or the file
    parts of \<open>r.MultipartForm.File\<close> by field name.
\<close>

record Request =
  rHeader :: "string \<Rightarrow> string list"
  rForm :: "(string \<Rightarrow> string list) option"
  rParsedForm :: "string \<Rightarrow> string list"
  rPathValues :: "string \<Rightarrow> string"
  rBody :: "error + string"
  rMultipart :: "int \<Rightarrow> error + (string \<Rightarrow> FileHeader list)"

text \<open>\<open>r.Header.Get(key)\<close> for a key in canonical form: the first value, or the empty string.\<close>

definition HeaderGet :: "Request \<Rightarrow> string \<Rightarrow> string" where
  "HeaderGet r key = (case rHeader r key of [] \<Rightarrow> [] | v # _ \<Rightarrow> v)"

text \<open>
  \<open>r.Form[name]\<close>, a plain read of the map: nothing when the form was never parsed.
\<close>

definition FormOf :: "Request \<Rightarrow> string \<Rightarrow> string list" where
  "FormOf r name = (case rForm r of None \<Rightarrow> [] | Some f \<Rightarrow> f name)"

text \<open>
  \<open>r.FormValue(name)\<close>: parses the form first when \<open>r.Form\<close> is \<open>nil\<close>, then gives the
  first value of the name, or the empty string. (The parse stores its result in the
  request; each helper below reads the form once, so the store is not observed.)
\<close>

definition FormValue :: "Request \<Rightarrow> string \<Rightarrow> string" where
  "FormValue r name =
     (case (case rForm r of None \<Rightarrow> rParsedForm r name | Some f \<Rightarrow> f name) of
        [] \<Rightarrow> []
      | v # _ \<Rightarrow> v)"

definition PathValue :: "Request \<Rightarrow> string \<Rightarrow> string" where
  "PathValue r name = rPathValues r name"

text \<open>
  \<open>r.FormFile(key)\<close> after a successful \<open>ParseMultipartForm\<close>: the first part of the
  field, opened; \<open>http.ErrMissingFile\<close> when the field has no file part.
\<close>

definition FormFile :: "(string \<Rightarrow> FileHeader list) \<Rightarrow> string \<Rightarrow> error + (string \<times> FileHeader)" where
  "FormFile files key =
     (case files key of
        [] \<Rightarrow> Inl ''http: no such file''
      | fh # _ \<Rightarrow> (case fhOpen fh of Inl err \<Rightarrow> Inl err | Inr f \<Rightarrow> Inr (f, fh)))"

section \<open>Package responses\<close>

text \<open>
  The response sink is Go's \<open>http.ResponseWriter\<close>, an interface. The writers of this
  package call three of its operations: \<open>Header().Set(k, v)\<close>, \<open>WriteHeader(status)\<close>
  and (through \<open>fmt.Fprintf\<close>) \<open>Write(bytes)\<close>. The sink is modelled by the trace of
  the calls made on it, oldest first; every writer returns the extended trace. None of
  the writers returns a value in the source, so the trace is all they produce.
\<close>

datatype event =
    HeaderSet string string
  | WriteHeader int
  | Write string

type_synonym ResponseWriter = "event list"

text \<open>The explicit status writes and the body bytes recorded in a trace.\<close>

fun statusWrites :: "ResponseWriter \<Rightarrow> int list" where
  "statusWrites [] = []"
| "statusWrites (WriteHeader s # es) = s # statusWrites es"
| "statusWrites (e # es) = statusWrites es"

fun bodyWritten :: "ResponseWriter \<Rightarrow> string" where
  "bodyWritten [] = []"
| "bodyWritten (Write b # es) = b @ bodyWritten es"
| "bodyWritten (e # es) = bodyWritten es"

definition StatusOK :: int where "StatusOK = 200"
definition StatusBadRequest :: int where "StatusBadRequest = 400"
definition StatusUnauthorized :: int where "StatusUnauthorized = 401"
definition StatusInternalServerError :: int where "StatusInternalServerError = 500"


text \<open>
  \<open>write\<close> (here \<open>write'\<close>: the plain name is reserved), the worker behind \<open>Text\<close>
  and \<open>Html\<close>. The value is of type \<open>any\<close> and is printed with the verb \<open>%v\<close>; the
  printer of package \<open>fmt\<close> is the parameter \<open>sprint\<close>.
\<close>

definition write' :: "('v \<Rightarrow> string) \<Rightarrow> ResponseWriter \<Rightarrow> string \<Rightarrow> int \<Rightarrow> 'v \<Rightarrow> ResponseWriter" where
  "write' sprint w contentType status v =
     (let w1 = w @ [HeaderSet ''Content-Type'' contentType];
          w2 = (if status > 299 then w1 @ [WriteHeader status] else w1)
      in w2 @ [Write (sprint v)])"

definition Html :: "('v \<Rightarrow> string) \<Rightarrow> ResponseWriter \<Rightarrow> int \<Rightarrow> 'v \<Rightarrow> ResponseWriter" where
  "Html sprint w status v = write' sprint w ''text/html'' status v"

definition Text :: "('v \<Rightarrow> string) \<Rightarrow> ResponseWriter \<Rightarrow> int \<Rightarrow> 'v \<Rightarrow> ResponseWriter" where
  "Text sprint w status v = write' sprint w ''text/plain'' status v"

text \<open>
  The body \<open>Json\<close> falls back to is \<open>json.Marshal\<close> of a struct literal with two string
  fields tagged \<open>message\<close> and \<open>suggestion\<close>. For a struct, \<open>encoding/json\<close> emits the
  fields in declaration order as \<open>{"tag":value,...}\<close>; a string value is emitted between
  double quotes. \<open>jsonString\<close> covers the escapes of printable ASCII (quote, backslash
  and the three HTML-sensitive characters); the two literals of the source hold letters
  and spaces only, which are emitted as they are.
\<close>

fun jsonEscape :: "char \<Rightarrow> string" where
  "jsonEscape c =
     (if c = CHR 0x22 then [CHR 0x5C, CHR 0x22]
      else if c = CHR 0x5C then [CHR 0x5C, CHR 0x5C]
      else if c = CHR ''<'' then CHR 0x5C # ''u003c''
      else if c = CHR ''>'' then CHR 0x5C # ''u003e''
      else if c = CHR ''&'' then CHR 0x5C # ''u0026''
      else [c])"

definition jsonString :: "string \<Rightarrow> string" where
  "jsonString s = [CHR 0x22] @ concat (map jsonEscape s) @ [CHR 0x22]"

fun jsonFields :: "(string \<times> string) list \<Rightarrow> string" where
  "jsonFields [] = []"
| "jsonFields [(k, v)] = jsonString k @ '':'' @ jsonString v"
| "jsonFields ((k, v) # kvs) = jsonString k @ '':'' @ jsonString v @ '','' @ jsonFields kvs"

definition jsonStruct :: "(string \<times> string) list \<Rightarrow> string" where
  "jsonStruct kvs = ''{'' @ jsonFields kvs @ ''}''"

definition marshalErrorBody :: string where
  "marshalErrorBody =
     jsonStruct [(''message'', ''Error marshaling value for writing''),
                 (''suggestion'', ''See error log for more information'')]"

text \<open>
  \<open>Json\<close>. \<open>json.Marshal\<close> on the caller's value is the parameter \<open>marshal\<close>: \<open>Inl\<close> is
  its error, \<open>Inr\<close> the bytes.
\<close>

definition Json :: "('v \<Rightarrow> string + string) \<Rightarrow> ResponseWriter \<Rightarrow> int \<Rightarrow> 'v \<Rightarrow> ResponseWriter" where
  "Json marshal w status v =
     (let w1 = w @ [HeaderSet ''Content-Type'' ''application/json'']
      in case marshal v of
           Inl err \<Rightarrow> w1 @ [WriteHeader StatusInternalServerError, Write marshalErrorBody]
         | Inr b \<Rightarrow>
             (let w2 = (if status > 299 then w1 @ [WriteHeader status] else w1)
              in w2 @ [Write b]))"

definition JsonOK :: "('v \<Rightarrow> string + string) \<Rightarrow> ResponseWriter \<Rightarrow> 'v \<Rightarrow> ResponseWriter" where
  "JsonOK marshal w v = Json marshal w StatusOK v"

text \<open>The convenience wrappers fix the status.\<close>

definition HtmlOK :: "('v \<Rightarrow> string) \<Rightarrow> ResponseWriter \<Rightarrow> 'v \<Rightarrow> ResponseWriter" where
  "HtmlOK sprint w v = Html sprint w StatusOK v"

definition TextOK :: "('v \<Rightarrow> string) \<Rightarrow> ResponseWriter \<Rightarrow> 'v \<Rightarrow> ResponseWriter" where
  "TextOK sprint w v = Text sprint w StatusOK v"

definition TextBadRequest :: "('v \<Rightarrow> string) \<Rightarrow> ResponseWriter \<Rightarrow> 'v \<Rightarrow> ResponseWriter" where
  "TextBadRequest sprint w v = Text sprint w StatusBadRequest v"

definition TextInternalServerError :: "('v \<Rightarrow> string) \<Rightarrow> ResponseWriter \<Rightarrow> 'v \<Rightarrow> ResponseWriter" where
  "TextInternalServerError sprint w v = Text sprint w StatusInternalServerError v"

definition TextUnauthorized :: "('v \<Rightarrow> string) \<Rightarrow> ResponseWriter \<Rightarrow> 'v \<Rightarrow> ResponseWriter" where
  "TextUnauthorized sprint w v = Text sprint w StatusUnauthorized v"

definition JsonBadRequest :: "('v \<Rightarrow> string + string) \<Rightarrow> ResponseWriter \<Rightarrow> 'v \<Rightarrow> ResponseWriter" where
  "JsonBadRequest marshal w v = Json marshal w StatusBadRequest v"

definition JsonInternalServerError :: "('v \<Rightarrow> string + string) \<Rightarrow> ResponseWriter \<Rightarrow> 'v \<Rightarrow> ResponseWriter" where
  "JsonInternalServerError marshal w v = Json marshal w StatusInternalServerError v"

definition JsonUnauthorized :: "('v \<Rightarrow> string + string) \<Rightarrow> ResponseWriter \<Rightarrow> 'v \<Rightarrow> ResponseWriter" where
  "JsonUnauthorized marshal w v = Json marshal w StatusUnauthorized v"

text \<open>\<open>JsonErrorMessage\<close> serializes the map with the one key \<open>message\<close>.\<close>

definition JsonErrorMessage ::
  "((string \<times> string) list \<Rightarrow> string + string) \<Rightarrow> ResponseWriter \<Rightarrow> int \<Rightarrow> string \<Rightarrow> ResponseWriter" where
  "JsonErrorMessage marshal w status message = Json marshal w status [(''message'', message)]"

section \<open>Package requests\<close>

text \<open>
  \<open>GetAuthorizationBearer\<close> returns \<open>(string, error)\<close>: the token and \<open>nil\<close>, or the empty
  string and the error.
\<close>

definition GetAuthorizationBearer :: "Request \<Rightarrow> string \<times> error option" where
  "GetAuthorizationBearer r =
     (let authHeader = HeaderGet r ''Authorization'';
          bearerParts = Fields authHeader
      in if length bearerParts \<noteq> 2 \<or> ToLower (bearerParts ! 0) \<noteq> ''bearer''
         then ([], Some ''invalid bearer authorization header'')
         else (bearerParts ! 1, None))"

text \<open>
  \<open>strconv.ParseFloat\<close> and the floating-point values are not computed here: the type
  \<open>'f\<close> stands for \<open>float64\<close>, and the record holds the parser, the zero and the
  conversion \<open>float32(x)\<close> (read back as a \<open>float64\<close>).
\<close>

record 'f Floats =
  ParseFloat :: "string \<Rightarrow> nat \<Rightarrow> NumError + 'f"
  float32 :: "'f \<Rightarrow> 'f"
  fzero :: 'f

text \<open>The integer conversions of Go wrap around; \<open>int\<close> and \<open>uint\<close> have 64 bits.\<close>

definition int32 :: "int \<Rightarrow> int" where
  "int32 x = (x + 2 ^ 31) mod 2 ^ 32 - 2 ^ 31"

definition uint32 :: "nat \<Rightarrow> nat" where
  "uint32 x = x mod 2 ^ 32"

definition getInt :: "Request \<Rightarrow> string \<Rightarrow> nat \<Rightarrow> int" where
  "getInt r name size' =
     (case ParseInt (FormValue r name) size' of
        Inr result \<Rightarrow> result
      | Inl err \<Rightarrow>
          (case ParseInt (PathValue r name) size' of
             Inr result \<Rightarrow> result
           | Inl err \<Rightarrow> 0))"

definition getUint :: "Request \<Rightarrow> string \<Rightarrow> nat \<Rightarrow> nat" where
  "getUint r name size' =
     (case ParseUint (FormValue r name) size' of
        Inr result \<Rightarrow> result
      | Inl err \<Rightarrow>
          (case ParseUint (PathValue r name) size' of
             Inr result \<Rightarrow> result
           | Inl err \<Rightarrow> 0))"

definition getFloat :: "'f Floats \<Rightarrow> Request \<Rightarrow> string \<Rightarrow> nat \<Rightarrow> 'f" where
  "getFloat fl r name size' =
     (case ParseFloat fl (FormValue r name) size' of
        Inr result \<Rightarrow> result
      | Inl err \<Rightarrow>
          (case ParseFloat fl (PathValue r name) size' of
             Inr result \<Rightarrow> result
           | Inl err \<Rightarrow> fzero fl))"

text \<open>
  The loops of the slice helpers, \<open>for _, v := range values\<close> appending to \<open>result\<close>; the
  second argument is \<open>result\<close> so far, and \<open>size'\<close> is the parameter \<open>size\<close>. (The guard \<open>len(values) > 0\<close> around the loop
  skips a loop that would not run.)
\<close>

fun intSliceLoop :: "nat \<Rightarrow> int list \<Rightarrow> string list \<Rightarrow> int list" where
  "intSliceLoop size' result [] = result"
| "intSliceLoop size' result (v # values) =
     (case ParseInt v size' of
        Inr temp \<Rightarrow> intSliceLoop size' (result @ [temp]) values
      | Inl err \<Rightarrow> intSliceLoop size' result values)"

definition getIntSlice :: "Request \<Rightarrow> string \<Rightarrow> nat \<Rightarrow> int list" where
  "getIntSlice r name size' =
     (let values = FormOf r name
      in if length values > 0 then intSliceLoop size' [] values else [])"

fun uintSliceLoop :: "nat \<Rightarrow> nat list \<Rightarrow> string list \<Rightarrow> nat list" where
  "uintSliceLoop size' result [] = result"
| "uintSliceLoop size' result (v # values) =
     (case ParseUint v size' of
        Inr temp \<Rightarrow> uintSliceLoop size' (result @ [temp]) values
      | Inl err \<Rightarrow> uintSliceLoop size' result values)"

definition getUintSlice :: "Request \<Rightarrow> string \<Rightarrow> nat \<Rightarrow> nat list" where
  "getUintSlice r name size' =
     (let values = FormOf r name
      in if length values > 0 then uintSliceLoop size' [] values else [])"

fun floatSliceLoop :: "'f Floats \<Rightarrow> nat \<Rightarrow> 'f list \<Rightarrow> string list \<Rightarrow> 'f list" where
  "floatSliceLoop fl size' result [] = result"
| "floatSliceLoop fl size' result (v # values) =
     (case ParseFloat fl v size' of
        Inr temp \<Rightarrow> floatSliceLoop fl size' (result @ [temp]) values
      | Inl err \<Rightarrow> floatSliceLoop fl size' result values)"

definition getFloatSlice :: "'f Floats \<Rightarrow> Request \<Rightarrow> string \<Rightarrow> nat \<Rightarrow> 'f list" where
  "getFloatSlice fl r name size' =
     (let values = FormOf r name
      in if length values > 0 then floatSliceLoop fl size' [] values else [])"

text \<open>
  The type parameter \<open>T\<close> of \<open>GetFromRequest\<close> ranges over the closed set
  \<open>RequestTypes\<close>; the type switch on it is a case distinction on \<open>RequestType\<close>, and the
  value returned carries its type.
\<close>

datatype RequestType =
    TInt | TIntSlice | TInt32 | TInt32Slice | TInt64 | TInt64Slice
  | TUint | TUintSlice | TUint32 | TUint32Slice | TUint64 | TUint64Slice
  | TFloat32 | TFloat32Slice | TFloat64 | TFloat64Slice
  | TString | TStringSlice | TBool

datatype 'f Value =
    VInt int | VIntSlice "int list" | VInt32 int | VInt32Slice "int list"
  | VInt64 int | VInt64Slice "int list"
  | VUint nat | VUintSlice "nat list" | VUint32 nat | VUint32Slice "nat list"
  | VUint64 nat | VUint64Slice "nat list"
  | VFloat32 'f | VFloat32Slice "'f list" | VFloat64 'f | VFloat64Slice "'f list"
  | VString string | VStringSlice "string list" | VBool bool

fun GetFromRequest :: "'f Floats \<Rightarrow> RequestType \<Rightarrow> Request \<Rightarrow> string \<Rightarrow> 'f Value" where
  "GetFromRequest fl TString r name =
     (let result = FormValue r name;
          result = (if result = [] then PathValue r name else result)
      in VString result)"
| "GetFromRequest fl TStringSlice r name = VStringSlice (FormOf r name)"
| "GetFromRequest fl TBool r name =
     (let temp = FormValue r name;
          temp = (if temp = [] then PathValue r name else temp)
      in case ParseBool temp of Inr result \<Rightarrow> VBool result | Inl err \<Rightarrow> VBool False)"
| "GetFromRequest fl TInt r name = VInt (getInt r name 64)"
| "GetFromRequest fl TInt32 r name = VInt32 (int32 (getInt r name 32))"
| "GetFromRequest fl TInt64 r name = VInt64 (getInt r name 64)"
| "GetFromRequest fl TUint r name = VUint (getUint r name 64)"
| "GetFromRequest fl TUint32 r name = VUint32 (uint32 (getUint r name 32))"
| "GetFromRequest fl TUint64 r name = VUint64 (getUint r name 64)"
| "GetFromRequest fl TIntSlice r name = VIntSlice (getIntSlice r name 64)"
| "GetFromRequest fl TInt32Slice r name = VInt32Slice (map int32 (getIntSlice r name 32))"
| "GetFromRequest fl TInt64Slice r name = VInt64Slice (getIntSlice r name 64)"
| "GetFromRequest fl TUintSlice r name = VUintSlice (getUintSlice r name 64)"
| "GetFromRequest fl TUint32Slice r name = VUint32Slice (map uint32 (getUintSlice r name 32))"
| "GetFromRequest fl TUint64Slice r name = VUint64Slice (getUintSlice r name 64)"
| "GetFromRequest fl TFloat32 r name = VFloat32 (float32 fl (getFloat fl r name 32))"
| "GetFromRequest fl TFloat32Slice r name =
     VFloat32Slice (map (float32 fl) (getFloatSlice fl r name 32))"
| "GetFromRequest fl TFloat64 r name = VFloat64 (getFloat fl r name 64)"
| "GetFromRequest fl TFloat64Slice r name = VFloat64Slice (getFloatSlice fl r name 64)"

definition GetStringListFromRequest :: "Request \<Rightarrow> string \<Rightarrow> string \<Rightarrow> string list" where
  "GetStringListFromRequest r name seperator =
     (let values = FormValue r name
      in Split values seperator)"

definition IsHtmx :: "Request \<Rightarrow> bool" where
  "IsHtmx r = (HeaderGet r ''Hx-Request'' \<noteq> [])"

text \<open>
  \<open>ReadBody\<close>. \<open>json.Unmarshal(b, &result)\<close> and \<open>xml.Unmarshal(b, &result)\<close> are the
  parameters: given the bytes and the value of \<open>result\<close> before the call (the zero value
  of \<open>T\<close>, the field \<open>zeroValue\<close>), each gives the value of \<open>result\<close> after it and the
  error, if any.
\<close>

record 'a Decoders =
  jsonUnmarshal :: "string \<Rightarrow> 'a \<Rightarrow> 'a \<times> error option"
  xmlUnmarshal :: "string \<Rightarrow> 'a \<Rightarrow> 'a \<times> error option"
  zeroValue :: 'a

definition ReadBody :: "'a Decoders \<Rightarrow> Request \<Rightarrow> 'a \<times> error option" where
  "ReadBody dec r =
     (case rBody r of
        Inl err \<Rightarrow> (zeroValue dec, Some (''error reading request body: '' @ err))
      | Inr b \<Rightarrow>
          (let contentType = HeaderGet r ''Content-Type''
           in if contentType = ''application/json'' then
                (case jsonUnmarshal dec b (zeroValue dec) of
                   (result, Some err) \<Rightarrow>
                     (result, Some (''error unmarshaling body to destination: '' @ err
                                    @ '', contents: '' @ b))
                 | (result, None) \<Rightarrow> (result, None))
              else if contentType = ''application/xml'' then
                (case xmlUnmarshal dec b (zeroValue dec) of
                   (result, Some err) \<Rightarrow>
                     (result, Some (''error unmarshaling body to destination: '' @ err
                                    @ '', contents: '' @ b))
                 | (result, None) \<Rightarrow> (result, None))
              else (zeroValue dec, Some (''unsupported content type: '' @ contentType))))"

section \<open>Package fileuploads\<close>

subsection \<open>path/filepath, on Unix\<close>

text \<open>The elements of a path: the pieces between slashes.\<close>

fun elemsLoop :: "string \<Rightarrow> string \<Rightarrow> string list" where
  "elemsLoop [] cur = [cur]"
| "elemsLoop (c # s) cur = (if c = CHR ''/'' then cur # elemsLoop s [] else elemsLoop s (cur @ [c]))"

definition elems :: "string \<Rightarrow> string list" where
  "elems path = elemsLoop path []"

text \<open>
  \<open>filepath.Clean\<close>, by its four rules: empty elements go (multiple slashes become
  one), each \<open>.\<close> goes, each inner \<open>..\<close> goes with the element before it when that
  is not itself \<open>..\<close>, and a \<open>..\<close> at the start of a rooted path goes. The second
  argument of the loop is the output so far, last element first. An empty result is
  \<open>.\<close>; a rooted result starts with one slash.
\<close>

fun cleanLoop :: "bool \<Rightarrow> string list \<Rightarrow> string list \<Rightarrow> string list" where
  "cleanLoop rooted out [] = rev out"
| "cleanLoop rooted out (e # es) =
     (if e = [] \<or> e = ''.'' then cleanLoop rooted out es
      else if e = ''..'' then
        (case out of
           [] \<Rightarrow> if rooted then cleanLoop rooted [] es else cleanLoop rooted [''..''] es
         | prev # below \<Rightarrow>
             if prev = ''..'' then cleanLoop rooted (''..'' # out) es
             else cleanLoop rooted below es)
      else cleanLoop rooted (e # out) es)"

fun joinSlash :: "string list \<Rightarrow> string" where
  "joinSlash [] = []"
| "joinSlash [e] = e"
| "joinSlash (e # es) = e @ ''/'' @ joinSlash es"

definition IsAbs :: "string \<Rightarrow> bool" where
  "IsAbs path = HasPrefix path ''/''"

definition Clean :: "string \<Rightarrow> string" where
  "Clean path =
     (let rooted = IsAbs path;
          out = joinSlash (cleanLoop rooted [] (elems path))
      in if rooted then ''/'' @ out else if out = [] then ''.'' else out)"

text \<open>
  \<open>filepath.Join\<close>: the elements from the first non-empty one on, joined by slashes and
  cleaned; the empty string when every element is empty.
\<close>

fun Join :: "string list \<Rightarrow> string" where
  "Join [] = []"
| "Join (e # es) = (if e = [] then Join es else Clean (joinSlash (e # es)))"

text \<open>\<open>filepath.Base\<close> and \<open>filepath.Ext\<close>.\<close>

definition Base :: "string \<Rightarrow> string" where
  "Base path =
     (if path = [] then ''.''
      else let stripped = rev (dropWhile (\<lambda>c. c = CHR ''/'') (rev path));
               last_elem = rev (takeWhile (\<lambda>c. c \<noteq> CHR ''/'') (rev stripped))
           in if last_elem = [] then ''/'' else last_elem)"

fun extLoop :: "string \<Rightarrow> string \<Rightarrow> string" where
  "extLoop [] suffix = []"
| "extLoop (c # front) suffix =
     (if c = CHR ''/'' then []
      else if c = CHR ''.'' then c # suffix
      else extLoop front (c # suffix))"

definition Ext' :: "string \<Rightarrow> string" where
  "Ext' path = extLoop (rev path) []"

text \<open>
  \<open>filepath.Abs\<close>: a rooted path is cleaned, any other is joined to the working
  directory, which \<open>os.Getwd\<close> may fail to give.
\<close>

definition Abs :: "error + string \<Rightarrow> string \<Rightarrow> error + string" where
  "Abs getwd path =
     (if IsAbs path then Inr (Clean path)
      else case getwd of Inl err \<Rightarrow> Inl err | Inr wd \<Rightarrow> Inr (Join [wd, path]))"

subsection \<open>The types and functions of the package\<close>

text \<open>
  \<open>File\<close> is the open stream of the part (its bytes), \<open>None\<close> for \<open>nil\<close>; \<open>info\<close> is the
  pointer to the part's header, \<open>None\<close> for \<open>nil\<close>.
\<close>

record FileUpload =
  File :: "string option"
  info :: "FileHeader option"
  FileName :: string
  Size :: int
  Header :: "(string \<times> string list) list"
  Ext :: string
  SavedFile :: string
  SavedFilePath :: string

definition zeroFileUpload :: FileUpload where
  "zeroFileUpload =
     \<lparr>File = None, info = None, FileName = [], Size = 0, Header = [], Ext = [],
      SavedFile = [], SavedFilePath = []\<rparr>"

record UploadOptions =
  MaxFileSize :: int
  RandomStringSize :: int

type_synonym UploadOption = "UploadOptions \<Rightarrow> UploadOptions"

definition WithMaxFileSize :: "int \<Rightarrow> UploadOption" where
  "WithMaxFileSize size' o' = o'\<lparr>MaxFileSize := size'\<rparr>"

definition WithRandomStringSize :: "int \<Rightarrow> UploadOption" where
  "WithRandomStringSize size' o' = o'\<lparr>RandomStringSize := size'\<rparr>"

text \<open>
  What a call gives: it returns, or it panics (the stack unwinds and nothing is
  returned).
\<close>

datatype 'a outcome = Panic string | Return 'a

text \<open>The options of a call: the defaults (\<open>10 << 20\<close> bytes, 10 characters), then each option in order.\<close>

definition applyOptions :: "UploadOption list \<Rightarrow> UploadOptions" where
  "applyOptions options = foldl (\<lambda>opts opt. opt opts) \<lparr>MaxFileSize = 10 * 2 ^ 20, RandomStringSize = 10\<rparr> options"

text \<open>
  \<open>ReadUploadedFile\<close>. The callback is a closure: the state \<open>'s\<close> is what it captures
  and may change, and is passed through. The deferred \<open>uploadedFile.Close()\<close> releases
  the stream once the function is left; the stream is not used after that.
\<close>

definition ReadUploadedFile ::
  "string \<Rightarrow> Request \<Rightarrow> (FileUpload \<Rightarrow> UploadOptions \<Rightarrow> 's \<Rightarrow> (error option \<times> 's) outcome)
     \<Rightarrow> UploadOption list \<Rightarrow> 's \<Rightarrow> (error option \<times> 's) outcome" where
  "ReadUploadedFile fieldName r callback options st =
     (let opts = applyOptions options
      in case rMultipart r (MaxFileSize opts) of
           Inl err \<Rightarrow> Return (Some (''error parsing form data: '' @ err), st)
         | Inr files \<Rightarrow>
             (case FormFile files fieldName of
                Inl err \<Rightarrow> Return (Some (''error retrieving file info from form: '' @ err), st)
              | Inr (uploadedFile, info') \<Rightarrow>
                  if fhSize info' > MaxFileSize opts then
                    Return (Some (''file size of '' @ sprintInt (fhSize info')
                                  @ '' bytes exceeds the limit of ''
                                  @ sprintInt (MaxFileSize opts) @ '' bytes''), st)
                  else
                    callback (zeroFileUpload\<lparr>File := Some uploadedFile, info := Some info'\<rparr>)
                      opts st))"

text \<open>
  \<open>randomString\<close>: \<open>make([]byte, length)\<close> panics for a negative length. The generator is
  seeded with the clock; \<open>intn i\<close> is what its \<open>i\<close>-th call \<open>Intn(36)\<close> gives, a number
  below 36 (the remainder keeps the index in range for any \<open>intn\<close>).
\<close>

definition characters :: string where
  "characters = ''abcdefghijklmnopqrstuvwxyz0123456789''"

definition randomString :: "(nat \<Rightarrow> nat) \<Rightarrow> int \<Rightarrow> string outcome" where
  "randomString intn len =
     (if len < 0 then Panic ''runtime error: makeslice: len out of range''
      else Return (map (\<lambda>index. characters ! (intn index mod length characters)) [0..<nat len]))"

text \<open>The values of the template data, a \<open>map[string]any\<close> holding strings and one \<open>int64\<close>.\<close>

datatype TemplateValue = StringValue string | IntValue int

type_synonym TemplateData = "(string \<times> TemplateValue) list"

text \<open>
  What \<open>UploadFileToDir\<close> calls outside the package, over a file system of type \<open>'fs\<close>
  and parsed templates of type \<open>'t\<close>:
  \<^item> \<open>templateParse\<close>: \<open>template.New("fileupload").Option("missingkey=error").Parse(text)\<close>;
  \<^item> \<open>templateExecute\<close>: \<open>Execute\<close> under that option, an error or the text written;
  \<^item> \<open>osCreate\<close>: \<open>os.Create(path)\<close>, an error or the file system with the file created
    or truncated;
  \<^item> \<open>ioCopy\<close>: \<open>io.Copy\<close> of the stream into the file created at a path, the error if any
    and the file system after it;
  \<^item> \<open>osGetwd\<close>: \<open>os.Getwd()\<close>;
  \<^item> \<open>randIntn\<close>: the draws of the random generator.
\<close>

record ('t, 'fs) Externals =
  templateParse :: "string \<Rightarrow> error + 't"
  templateExecute :: "'t \<Rightarrow> TemplateData \<Rightarrow> error + string"
  osCreate :: "string \<Rightarrow> 'fs \<Rightarrow> error + 'fs"
  ioCopy :: "string \<Rightarrow> string \<Rightarrow> 'fs \<Rightarrow> error option \<times> 'fs"
  osGetwd :: "error + string"
  randIntn :: "nat \<Rightarrow> nat"

text \<open>
  The map \<open>templateData\<close> the callback builds from the part's header and the random
  string.
\<close>

definition templateData :: "FileHeader \<Rightarrow> string \<Rightarrow> TemplateData" where
  "templateData info' rnd =
     [(''fileName'', StringValue (fhFilename info')),
      (''baseFileName'', StringValue (Base (fhFilename info'))),
      (''ext'', StringValue (Ext' (fhFilename info'))),
      (''size'', IntValue (fhSize info')),
      (''randomString'', StringValue rnd)]"

text \<open>
  The callback \<open>UploadFileToDir\<close> passes to \<open>ReadUploadedFile\<close>. It captures the variable
  \<open>result\<close> and works on the file system: its state is the pair of the two. Its first
  statement points \<open>result\<close> to \<open>file\<close>, so afterwards \<open>result\<close> is \<open>file\<close> with the fields
  set at the end, if the end is reached. \<open>tempFile.Name()\<close> is the path given to
  \<open>os.Create\<close>. A \<open>nil\<close> header or stream panics where it is first used
  (\<open>ReadUploadedFile\<close> passes neither); the state reached at a panic is not kept.
\<close>

definition uploadCallback ::
  "('t, 'fs) Externals \<Rightarrow> string \<Rightarrow> string \<Rightarrow> FileUpload \<Rightarrow> UploadOptions
     \<Rightarrow> FileUpload \<times> 'fs \<Rightarrow> (error option \<times> FileUpload \<times> 'fs) outcome" where
  "uploadCallback ext destDir destFileNameTemplate file options st =
     (case info file of
        None \<Rightarrow> Panic ''runtime error: invalid memory address or nil pointer dereference''
      | Some info' \<Rightarrow>
          (case randomString (randIntn ext) (RandomStringSize options) of
             Panic msg \<Rightarrow> Panic msg
           | Return rnd \<Rightarrow>
               (let fs = snd st;
                    data = templateData info' rnd
                in case templateParse ext destFileNameTemplate of
                     Inl err \<Rightarrow>
                       Return (Some (''error parsing destination file name template: '' @ err),
                               file, fs)
                   | Inr tt \<Rightarrow>
                       (case templateExecute ext tt data of
                          Inl err \<Rightarrow>
                            Return (Some (''error executing destination file name template: ''
                                          @ err), file, fs)
                        | Inr destFileName \<Rightarrow>
                            (let finalPath = Join [destDir, destFileName]
                             in if \<not> HasPrefix finalPath (Clean destDir) then
                                  Return (Some (''invalid destination file path attempted: ''
                                                @ destFileName), file, fs)
                                else
                                  (case osCreate ext finalPath fs of
                                     Inl err \<Rightarrow>
                                       Return (Some (''error creating file '' @ [CHR 0x27]
                                                     @ destFileName @ [CHR 0x27] @ '': '' @ err),
                                               file, fs)
                                   | Inr fs1 \<Rightarrow>
                                       (case File file of
                                          None \<Rightarrow>
                                            Panic ''runtime error: invalid memory address or nil pointer dereference''
                                        | Some stream \<Rightarrow>
                                            (case ioCopy ext finalPath stream fs1 of
                                               (Some err, fs2) \<Rightarrow>
                                                 Return (Some (''error copying uploaded file ''
                                                               @ [CHR 0x27] @ fhFilename info'
                                                               @ [CHR 0x27]
                                                               @ '' to temporary file ''
                                                               @ [CHR 0x27] @ destFileName
                                                               @ [CHR 0x27] @ '': '' @ err),
                                                         file, fs2)
                                             | (None, fs2) \<Rightarrow>
                                                 (let result1 =
                                                        (case Abs (osGetwd ext) finalPath of
                                                           Inr absolutePath \<Rightarrow>
                                                             file\<lparr>SavedFilePath := absolutePath\<rparr>
                                                         | Inl err \<Rightarrow> file)
                                                  in Return (None,
                                                             result1\<lparr>Ext := Ext' finalPath,
                                                                     SavedFile := finalPath\<rparr>,
                                                             fs2))))))))))"

text \<open>
  \<open>UploadFileToDir\<close> returns what \<open>result\<close> points to, and \<open>err\<close>; \<open>result\<close> starts
  as the zero value. The file system after the call is returned with them.
\<close>

definition UploadFileToDir ::
  "('t, 'fs) Externals \<Rightarrow> string \<Rightarrow> Request \<Rightarrow> string \<Rightarrow> string \<Rightarrow> UploadOption list
     \<Rightarrow> 'fs \<Rightarrow> ((FileUpload \<times> error option) \<times> 'fs) outcome" where
  "UploadFileToDir ext fieldName r destDir destFileNameTemplate options fs =
     (case ReadUploadedFile fieldName r (uploadCallback ext destDir destFileNameTemplate)
             options (zeroFileUpload, fs) of
        Panic msg \<Rightarrow> Panic msg
      | Return (err, (result, fs')) \<Rightarrow> Return ((result, err), fs'))"

section \<open>Concrete surroundings, to run the functions on examples\<close>

text \<open>
  A request with no header, no form value, no path value, an empty body and no multipart
  content, as \<open>httptest.NewRequest("GET", "/", nil)\<close> makes one.
\<close>

definition emptyRequest :: Request where
  "emptyRequest =
     \<lparr>rHeader = (\<lambda>key. []), rForm = None, rParsedForm = (\<lambda>name. []),
      rPathValues = (\<lambda>name. []), rBody = Inr [],
      rMultipart = (\<lambda>maxMemory. Inl ''request Content-Type isn't multipart/form-data'')\<rparr>"

text \<open>A request that carries one file part, as \<open>createMultipartRequest\<close> of the tests makes one.\<close>

definition multipartRequest :: "string \<Rightarrow> string \<Rightarrow> string \<Rightarrow> Request" where
  "multipartRequest fieldName fileName fileContent =
     emptyRequest\<lparr>rMultipart :=
       (\<lambda>maxMemory. Inr (\<lambda>key. if key = fieldName
                                then [\<lparr>fhFilename = fileName, fhSize = int (length fileContent),
                                       fhOpen = Inr fileContent\<rparr>]
                                else []))\<rparr>"

text \<open>
  A file system in memory: the directories that exist and the files with their content.
  Creating a file needs its directory; copying replaces the content of the file.
\<close>

record MemFS =
  dirs :: "string list"
  files :: "(string \<times> string) list"

definition parentDir :: "string \<Rightarrow> string" where
  "parentDir path = joinSlash (butlast (elems path))"

definition memCreate :: "string \<Rightarrow> MemFS \<Rightarrow> error + MemFS" where
  "memCreate path fs =
     (if parentDir path \<in> set (dirs fs)
      then Inr (fs\<lparr>files := (path, []) # filter (\<lambda>f. fst f \<noteq> path) (files fs)\<rparr>)
      else Inl (''open '' @ path @ '': no such file or directory''))"

definition memCopy :: "string \<Rightarrow> string \<Rightarrow> MemFS \<Rightarrow> error option \<times> MemFS" where
  "memCopy path content fs =
     (None, fs\<lparr>files := (path, content) # filter (\<lambda>f. fst f \<noteq> path) (files fs)\<rparr>)"

text \<open>
  The part of \<open>text/template\<close> that the documented file name templates use: literal text
  and actions \<open>{{.name}}\<close> that print the entry \<open>name\<close> of the data. Under
  \<open>missingkey=error\<close> an action whose name the data does not hold fails the execution.
  Any other action is refused by this parser (the library knows many more).
\<close>

datatype TemplateNode = TextNode string | FieldNode string

definition textNode :: "string \<Rightarrow> TemplateNode list" where
  "textNode t = (if t = [] then [] else [TextNode t])"

definition isNameChar :: "char \<Rightarrow> bool" where
  "isNameChar c =
     ((0x30 \<le> byte c \<and> byte c \<le> 0x39) \<or> (0x41 \<le> byte c \<and> byte c \<le> 0x5A)
      \<or> (0x61 \<le> byte c \<and> byte c \<le> 0x7A) \<or> c = CHR ''_'')"

definition fieldOfAction :: "string \<Rightarrow> string option" where
  "fieldOfAction a =
     (case dropWhile (\<lambda>c. c = CHR '' '') a of
        [] \<Rightarrow> None
      | c # rest \<Rightarrow>
          (let name = takeWhile isNameChar rest;
               after = dropWhile (\<lambda>c. c = CHR '' '') (dropWhile isNameChar rest)
           in if c = CHR ''.'' \<and> name \<noteq> [] \<and> after = [] then Some name else None))"

fun scanTemplate :: "string \<Rightarrow> string option \<Rightarrow> string \<Rightarrow> TemplateNode list \<Rightarrow> error + TemplateNode list" where
  "scanTemplate [] None txt nodes = Inr (nodes @ textNode txt)"
| "scanTemplate [] (Some a) txt nodes = Inl ''template: fileupload:1: unclosed action''"
| "scanTemplate [c] None txt nodes = Inr (nodes @ textNode (txt @ [c]))"
| "scanTemplate [c] (Some a) txt nodes = Inl ''template: fileupload:1: unclosed action''"
| "scanTemplate (c # d # s) None txt nodes =
     (if c = CHR ''{'' \<and> d = CHR ''{'' then scanTemplate s (Some []) [] (nodes @ textNode txt)
      else scanTemplate (d # s) None (txt @ [c]) nodes)"
| "scanTemplate (c # d # s) (Some a) txt nodes =
     (if c = CHR ''}'' \<and> d = CHR ''}'' then
        (case fieldOfAction a of
           None \<Rightarrow> Inl ''template: fileupload:1: action outside the supported part''
         | Some name \<Rightarrow> scanTemplate s None [] (nodes @ [FieldNode name]))
      else scanTemplate (d # s) (Some (a @ [c])) txt nodes)"

definition fieldParse :: "string \<Rightarrow> error + TemplateNode list" where
  "fieldParse text = scanTemplate text None [] []"

definition printValue :: "TemplateValue \<Rightarrow> string" where
  "printValue v = (case v of StringValue s \<Rightarrow> s | IntValue i \<Rightarrow> sprintInt i)"

fun fieldExecute :: "TemplateNode list \<Rightarrow> TemplateData \<Rightarrow> error + string" where
  "fieldExecute [] data = Inr []"
| "fieldExecute (TextNode t # nodes) data =
     (case fieldExecute nodes data of Inl err \<Rightarrow> Inl err | Inr out \<Rightarrow> Inr (t @ out))"
| "fieldExecute (FieldNode name # nodes) data =
     (case map_of data name of
        None \<Rightarrow> Inl (''template: fileupload: map has no entry for key '' @ [CHR 0x22] @ name
                     @ [CHR 0x22])
      | Some v \<Rightarrow>
          (case fieldExecute nodes data of
             Inl err \<Rightarrow> Inl err
           | Inr out \<Rightarrow> Inr (printValue v @ out)))"

definition memExternals :: "(TemplateNode list, MemFS) Externals" where
  "memExternals =
     \<lparr>templateParse = fieldParse, templateExecute = fieldExecute, osCreate = memCreate,
      ioCopy = memCopy, osGetwd = Inr ''/srv/app'', randIntn = (\<lambda>i. 7 * i + 3)\<rparr>"

text \<open>A file system holding the directory \<open>/data/dest\<close> and its sibling \<open>/data/dest-evil\<close>.\<close>

definition sampleFS :: MemFS where
  "sampleFS = \<lparr>dirs = [''/data'', ''/data/dest'', ''/data/dest-evil''], files = []\<rparr>"

text \<open>The printer \<open>%v\<close> applied to a Go string prints the string itself.\<close>

definition sprintString :: "string \<Rightarrow> string" where
  "sprintString s = s"

text \<open>A value \<open>json.Marshal\<close> refuses, as a channel is (the case the repository's test uses).\<close>

definition marshalChan :: "unit \<Rightarrow> string + string" where
  "marshalChan v = Inl ''json: unsupported type: chan int''"

text \<open>\<open>json.Marshal\<close> on a Go string.\<close>

definition marshalString :: "string \<Rightarrow> string + string" where
  "marshalString v = Inr (jsonString v)"

text \<open>A request with one \<open>Authorization\<close> header.\<close>

definition bearerRequest :: "string \<Rightarrow> Request" where
  "bearerRequest header =
     emptyRequest\<lparr>rHeader := (\<lambda>key. if key = ''Authorization'' then [header] else [])\<rparr>"

text \<open>
  A request whose form was parsed and binds \<open>formValues\<close> to one name, and whose route
  binds \<open>pathValue\<close> to the same name.
\<close>

definition formAndPathRequest :: "string \<Rightarrow> string list \<Rightarrow> string \<Rightarrow> Request" where
  "formAndPathRequest name formValues pathValue =
     emptyRequest\<lparr>rForm := Some (\<lambda>key. if key = name then formValues else []),
                  rPathValues := (\<lambda>key. if key = name then pathValue else [])\<rparr>"

text \<open>A request with a body and its declared content type.\<close>

definition bodyRequest :: "string \<Rightarrow> string \<Rightarrow> Request" where
  "bodyRequest contentType body =
     emptyRequest\<lparr>rHeader := (\<lambda>key. if key = ''Content-Type'' then [contentType] else []),
                  rBody := Inr body\<rparr>"

text \<open>
  A float library over the integers, reading decimal integers only: enough to run the
  float helpers, which do no arithmetic.
\<close>

definition decimalFloats :: "int Floats" where
  "decimalFloats =
     \<lparr>ParseFloat = (\<lambda>s bitSize. case ParseInt s 64 of Inr x \<Rightarrow> Inr x | Inl e \<Rightarrow> Inl e),
      float32 = (\<lambda>x. x), fzero = 0\<rparr>"

text \<open>A float library that parses nothing; it stands in where no float is read.\<close>

definition noFloats :: "unit Floats" where
  "noFloats = \<lparr>ParseFloat = (\<lambda>s bitSize. Inl ErrSyntax), float32 = (\<lambda>x. x), fzero = ()\<rparr>"

text \<open>The decoders of a target type that holds the body as it is, when it is not empty.\<close>

definition rawDecoders :: "string Decoders" where
  "rawDecoders =
     \<lparr>jsonUnmarshal = (\<lambda>b result. if b = [] then (result, Some ''unexpected end of JSON input'')
                                  else (b, None)),
      xmlUnmarshal = (\<lambda>b result. if b = [] then (result, Some ''EOF'') else (b, None)),
      zeroValue = []\<rparr>"

text \<open>A callback that counts its calls and reports no error.\<close>

definition countingCallback :: "FileUpload \<Rightarrow> UploadOptions \<Rightarrow> nat \<Rightarrow> (error option \<times> nat) outcome" where
  "countingCallback file opts calls = Return (None, Suc calls)"

section \<open>Notions of the specification\<close>

text \<open>
  A token equals \<open>bearer\<close> case-insensitively when each of its characters is the letter
  of \<open>bearer\<close> at its place, in lower or in upper case.
\<close>

definition caseInsensitiveBearer :: "string \<Rightarrow> bool" where
  "caseInsensitiveBearer s =
     list_all2 (\<lambda>c (l, u). c = l \<or> c = u) s (zip ''bearer'' ''BEARER'')"

text \<open>
  The parseable entries of a list of raw values, in their order: the entries the parser
  accepts, each as the value parsed.
\<close>

definition parseableEntries :: "(string \<Rightarrow> NumError + 'a) \<Rightarrow> string list \<Rightarrow> 'a list" where
  "parseableEntries parse values =
     map (\<lambda>v. projr (parse v)) (filter (\<lambda>v. \<not> isl (parse v)) values)"

text \<open>
  A path lies strictly inside a directory when, both cleaned, the elements of the
  directory are a proper prefix of the elements of the path (and both are rooted or both
  are not).
\<close>

fun properPrefix :: "'a list \<Rightarrow> 'a list \<Rightarrow> bool" where
  "properPrefix [] ys = (ys \<noteq> [])"
| "properPrefix (x # xs) [] = False"
| "properPrefix (x # xs) (y # ys) = (x = y \<and> properPrefix xs ys)"

definition cleanElems :: "string \<Rightarrow> string list" where
  "cleanElems path = cleanLoop (IsAbs path) [] (elems path)"

definition insideDir :: "string \<Rightarrow> string \<Rightarrow> bool" where
  "insideDir dir path =
     (IsAbs dir = IsAbs path \<and> properPrefix (cleanElems dir) (cleanElems path))"

text \<open>
  What the splitting at white space promises of its pieces. A rune read from a string is
  well formed when it has bytes and every ASCII byte among them is the rune itself; a
  token is not empty and holds no ASCII white space.
\<close>

definition wellFormedRune :: "nat \<times> string \<Rightarrow> bool" where
  "wellFormedRune rb = (snd rb \<noteq> [] \<and> (\<forall>d \<in> set (snd rb). byte d < 0x80 \<longrightarrow> fst rb = byte d))"

definition isToken :: "string \<Rightarrow> bool" where
  "isToken t = (t \<noteq> [] \<and> (\<forall>d \<in> set t. byte d < 0x80 \<longrightarrow> \<not> IsSpace (byte d)))"

section \<open>Facts about the library functions\<close>

lemma statusWrites_append: "statusWrites (a @ b) = statusWrites a @ statusWrites b"
  by (induction a rule: statusWrites.induct) simp_all

lemma bodyWritten_append: "bodyWritten (a @ b) = bodyWritten a @ bodyWritten b"
  by (induction a rule: bodyWritten.induct) simp_all

lemma HasPrefix_iff: "HasPrefix s p \<longleftrightarrow> (\<exists>q. s = p @ q)"
  by (induction s p rule: HasPrefix.induct) auto

lemma Contains_iff: "Contains s sub \<longleftrightarrow> (\<exists>p q. s = p @ sub @ q)"
proof (induction s)
  case Nil
  then show ?case by auto
next
  case (Cons c s)
  show ?case
  proof
    assume "Contains (c # s) sub"
    then consider "HasPrefix (c # s) sub" | "Contains s sub" by auto
    then show "\<exists>p q. c # s = p @ sub @ q"
    proof cases
      case 1
      then obtain q where "c # s = sub @ q" by (auto simp: HasPrefix_iff)
      then have "c # s = [] @ sub @ q" by simp
      then show ?thesis by blast
    next
      case 2
      then obtain p q where "s = p @ sub @ q" using Cons.IH by blast
      then have "c # s = (c # p) @ sub @ q" by simp
      then show ?thesis by blast
    qed
  next
    assume "\<exists>p q. c # s = p @ sub @ q"
    then obtain p q where eq: "c # s = p @ sub @ q" by blast
    show "Contains (c # s) sub"
    proof (cases p)
      case Nil
      with eq have "HasPrefix (c # s) sub" by (auto simp: HasPrefix_iff)
      then show ?thesis by simp
    next
      case (Cons d p')
      with eq have "s = p' @ sub @ q" by simp
      then have "Contains s sub" using Cons.IH by blast
      then show ?thesis by simp
    qed
  qed
qed

lemma Contains_middle: "Contains (p @ sub @ q) sub"
  by (auto simp: Contains_iff)

lemma Contains_appendI2: "Contains b sub \<Longrightarrow> Contains (a @ b) sub"
proof -
  assume "Contains b sub"
  then obtain p q where "b = p @ sub @ q" by (auto simp: Contains_iff)
  then have "a @ b = (a @ p) @ sub @ q" by simp
  then show ?thesis unfolding Contains_iff by blast
qed

lemma marshalErrorBody_contains: "Contains marshalErrorBody ''Error marshaling value''"
  by (simp add: marshalErrorBody_def jsonStruct_def jsonString_def)

text \<open>The defining equations that evaluate the library functions on given strings.\<close>

lemmas path_eval = Clean_def IsAbs_def elems_def Abs_def Ext'_def Base_def

lemmas template_eval = fieldParse_def fieldOfAction_def isNameChar_def byte_def textNode_def
  printValue_def templateData_def

lemmas mem_eval = memExternals_def memCreate_def memCopy_def parentDir_def sampleFS_def
  randomString_def characters_def

lemmas parse_eval = ParseInt_def ParseUint_def digitVal_def byte_def

lemmas fields_eval = Fields_def IsSpace_def byte_def isCont_def

text \<open>Decoding: the width of a rune, the bytes of a rune, and the runes of a string.\<close>

lemma DecodeRune_width: "1 \<le> snd (DecodeRuneInString (c # s)) \<and> snd (DecodeRuneInString (c # s)) \<le> 4"
  by (simp add: Let_def split: list.splits)

lemma DecodeRune_shape:
  "DecodeRuneInString (c # s) = (byte c, 1) \<and> byte c < 0x80
   \<or> DecodeRuneInString (c # s) = (RuneError, 1) \<and> 0x80 \<le> byte c
   \<or> (\<exists>c1 rest. s = c1 # rest \<and> snd (DecodeRuneInString (c # s)) = 2
         \<and> 0x80 \<le> byte c \<and> 0x80 \<le> byte c1)
   \<or> (\<exists>c1 c2 rest. s = c1 # c2 # rest \<and> snd (DecodeRuneInString (c # s)) = 3
         \<and> 0x80 \<le> byte c \<and> 0x80 \<le> byte c1 \<and> 0x80 \<le> byte c2)
   \<or> (\<exists>c1 c2 c3 rest. s = c1 # c2 # c3 # rest \<and> snd (DecodeRuneInString (c # s)) = 4
         \<and> 0x80 \<le> byte c \<and> 0x80 \<le> byte c1 \<and> 0x80 \<le> byte c2 \<and> 0x80 \<le> byte c3)"
proof (cases "byte c < 0x80")
  case True
  then show ?thesis by (simp add: Let_def)
next
  case high: False
  show ?thesis
  proof (cases "0xC2 \<le> byte c \<and> byte c \<le> 0xDF")
    case True
    with high show ?thesis
      by (cases s) (simp_all add: Let_def isCont_def)
  next
    case not2: False
    show ?thesis
    proof (cases "0xE0 \<le> byte c \<and> byte c \<le> 0xEF")
      case True
      have "s = [] \<or> (\<exists>c1. s = [c1]) \<or> (\<exists>c1 c2 rest. s = c1 # c2 # rest)"
        by (cases s; cases "tl s") auto
      with high not2 True show ?thesis
        by (elim disjE exE) (simp_all add: Let_def isCont_def)
    next
      case not3: False
      show ?thesis
      proof (cases "0xF0 \<le> byte c \<and> byte c \<le> 0xF4")
        case True
        have "s = [] \<or> (\<exists>c1. s = [c1]) \<or> (\<exists>c1 c2. s = [c1, c2])
              \<or> (\<exists>c1 c2 c3 rest. s = c1 # c2 # c3 # rest)"
          by (cases s; cases "tl s"; cases "tl (tl s)") auto
        with high not2 not3 True show ?thesis
          by (elim disjE exE) (simp_all add: Let_def isCont_def)
      next
        case False
        with high not2 not3 show ?thesis by (auto simp: Let_def)
      qed
    qed
  qed
qed

lemma DecodeRune_ascii:
  assumes "d \<in> set (take (snd (DecodeRuneInString (c # s))) (c # s))" and "byte d < 0x80"
  shows "fst (DecodeRuneInString (c # s)) = byte d"
  using DecodeRune_shape [of c s] assms
  by (elim disjE exE conjE) (auto simp: numeral_2_eq_2 numeral_3_eq_3 eval_nat_numeral simp del: DecodeRuneInString.simps)

lemma runes_bytes:
  "(r, bs) \<in> set (runes s) \<Longrightarrow> bs \<noteq> [] \<and> (\<forall>d \<in> set bs. byte d < 0x80 \<longrightarrow> r = byte d)"
proof (induction s rule: runes.induct)
  case 1
  then show ?case by simp
next
  case (2 c s)
  from "2.prems" consider
    (head) "r = fst (DecodeRuneInString (c # s))"
      "bs = take (snd (DecodeRuneInString (c # s))) (c # s)"
    | (tail) "(r, bs) \<in> set (runes (drop (snd (DecodeRuneInString (c # s)) - 1) s))"
    by (auto simp del: DecodeRuneInString.simps)
  then show ?case
  proof cases
    case head
    have "bs \<noteq> []"
      using DecodeRune_width [of c s] head(2)
      by (cases "snd (DecodeRuneInString (c # s))") (auto simp del: DecodeRuneInString.simps)
    moreover have "\<forall>d \<in> set bs. byte d < 0x80 \<longrightarrow> r = byte d"
      using DecodeRune_ascii [of _ c s] head by blast
    ultimately show ?thesis by blast
  next
    case tail
    then show ?thesis by (rule "2.IH")
  qed
qed

lemma runes_concat: "concat (map snd (runes s)) = s"
proof (induction s rule: runes.induct)
  case 1
  show ?case by simp
next
  case (2 c s)
  have w: "1 \<le> snd (DecodeRuneInString (c # s))"
    using DecodeRune_width [of c s] by blast
  then have "drop (snd (DecodeRuneInString (c # s)) - 1) s
             = drop (snd (DecodeRuneInString (c # s))) (c # s)"
    by (cases "snd (DecodeRuneInString (c # s))") (auto simp del: DecodeRuneInString.simps)
  with 2 show ?case
    by (simp del: DecodeRuneInString.simps)
qed

lemma runes_wellFormed: "rb \<in> set (runes s) \<Longrightarrow> wellFormedRune rb"
  using runes_bytes [of "fst rb" "snd rb" s] by (simp add: wellFormedRune_def)

lemma isToken_rune: "wellFormedRune (r, bs) \<Longrightarrow> \<not> IsSpace r \<Longrightarrow> isToken bs"
  by (auto simp: wellFormedRune_def isToken_def)

lemma isToken_append: "isToken a \<Longrightarrow> isToken b \<Longrightarrow> isToken (a @ b)"
  by (auto simp: isToken_def)

lemma fieldsLoop_tokens:
  assumes "\<forall>rb \<in> set rs. wellFormedRune rb" and "\<forall>t. cur = Some t \<longrightarrow> isToken t"
  shows "\<forall>t \<in> set (fieldsLoop rs cur). isToken t"
  using assms
proof (induction rs cur rule: fieldsLoop.induct)
  case 1
  then show ?case by simp
next
  case (2 cur)
  then show ?case by simp
next
  case (3 r bs rs)
  from "3.prems"(1) have rest: "\<forall>rb \<in> set rs. wellFormedRune rb"
    and this_rune: "wellFormedRune (r, bs)"
    by simp_all
  show ?case
  proof (cases "IsSpace r")
    case True
    have "\<forall>t \<in> set (fieldsLoop rs None). isToken t"
      by (rule "3.IH"(1) [OF True rest]) simp
    with True show ?thesis by simp
  next
    case False
    then have "isToken bs" using this_rune by (simp add: isToken_rune)
    then have "\<forall>t \<in> set (fieldsLoop rs (Some bs)). isToken t"
      by (intro "3.IH"(2) [OF False rest]) simp
    with False show ?thesis by simp
  qed
next
  case (4 r bs rs cur)
  from "4.prems"(1) have rest: "\<forall>rb \<in> set rs. wellFormedRune rb"
    and this_rune: "wellFormedRune (r, bs)"
    by simp_all
  from "4.prems"(2) have cur: "isToken cur"
    by simp
  show ?case
  proof (cases "IsSpace r")
    case True
    have "\<forall>t \<in> set (fieldsLoop rs None). isToken t"
      by (rule "4.IH"(1) [OF True rest]) simp
    with True cur show ?thesis by simp
  next
    case False
    then have "isToken (cur @ bs)"
      using this_rune cur by (simp add: isToken_rune isToken_append)
    then have "\<forall>t \<in> set (fieldsLoop rs (Some (cur @ bs))). isToken t"
      by (intro "4.IH"(2) [OF False rest]) simp
    with False show ?thesis by simp
  qed
qed

lemma Fields_tokens: "t \<in> set (Fields s) \<Longrightarrow> isToken t"
  using fieldsLoop_tokens [of "runes s" None] runes_wellFormed
  by (simp add: Fields_def)

section \<open>Package responses: the status write and the marshalling failure\<close>




text \<open>
  The wrappers for 400, 401 and 500 have their status written; the wrappers for 200
  have none written. A success status other than 200 is not written either: the writers
  called with 202 or 201, as the tests \<open>TestHtml\<close>, \<open>TestText\<close> and \<open>TestJson\<close> of the
  repository call them, leave the sink to its default status.
\<close>

lemma wrapper_status_writes:
  "statusWrites (TextBadRequest sprint [] v) = [400]"
  "statusWrites (TextUnauthorized sprint [] v) = [401]"
  "statusWrites (TextInternalServerError sprint [] v) = [500]"
  "statusWrites (TextOK sprint [] v) = []"
  "statusWrites (HtmlOK sprint [] v) = []"
  by (simp_all add: TextBadRequest_def TextUnauthorized_def TextInternalServerError_def
      TextOK_def HtmlOK_def Text_def Html_def write'_def StatusBadRequest_def
      StatusUnauthorized_def StatusInternalServerError_def StatusOK_def)

lemma success_status_other_than_200_not_written:
  "statusWrites (Html sprintString [] 202 ''<p>Hello World</p>'') = []"
  "statusWrites (Text sprintString [] 202 ''Hello World'') = []"
  "statusWrites (Json marshalString [] 201 ''Created'') = []"
  by (simp_all add: Html_def Text_def write'_def Json_def marshalString_def)

text \<open>
  Claim C4. When \<open>json.Marshal\<close> fails on the value, \<open>Json\<close> sets the content type,
  writes the status 500 and writes the fixed body with the fields \<open>message\<close> and
  \<open>suggestion\<close>, whatever status was asked for; the body contains
  \<open>Error marshaling value\<close>. The error is not part of what \<open>Json\<close> gives back (the trace
  of the sink is all it gives), nor of the trace.
\<close>

theorem Json_marshal_failure:
  assumes "marshal v = Inl err"
  shows "Json marshal w status v
           = w @ [HeaderSet ''Content-Type'' ''application/json'', WriteHeader 500,
                  Write marshalErrorBody]
         \<and> statusWrites (Json marshal w status v) = statusWrites w @ [500]
         \<and> bodyWritten (Json marshal w status v) = bodyWritten w @ marshalErrorBody
         \<and> Contains (bodyWritten (Json marshal w status v)) ''Error marshaling value''
         \<and> marshalErrorBody
             = ''{'' @ [CHR 0x22] @ ''message'' @ [CHR 0x22] @ '':'' @ [CHR 0x22]
               @ ''Error marshaling value for writing'' @ [CHR 0x22] @ '','' @ [CHR 0x22]
               @ ''suggestion'' @ [CHR 0x22] @ '':'' @ [CHR 0x22]
               @ ''See error log for more information'' @ [CHR 0x22] @ ''}''"
proof -
  have trace: "Json marshal w status v
      = w @ [HeaderSet ''Content-Type'' ''application/json'', WriteHeader 500,
             Write marshalErrorBody]"
    using assms by (simp add: Json_def StatusInternalServerError_def)
  have body: "bodyWritten (Json marshal w status v) = bodyWritten w @ marshalErrorBody"
    by (simp add: trace bodyWritten_append)
  have "Contains (bodyWritten w @ marshalErrorBody) ''Error marshaling value''"
    by (rule Contains_appendI2) (rule marshalErrorBody_contains)
  moreover have "statusWrites (Json marshal w status v) = statusWrites w @ [500]"
    by (simp add: trace statusWrites_append)
  moreover have "marshalErrorBody
             = ''{'' @ [CHR 0x22] @ ''message'' @ [CHR 0x22] @ '':'' @ [CHR 0x22]
               @ ''Error marshaling value for writing'' @ [CHR 0x22] @ '','' @ [CHR 0x22]
               @ ''suggestion'' @ [CHR 0x22] @ '':'' @ [CHR 0x22]
               @ ''See error log for more information'' @ [CHR 0x22] @ ''}''"
    by (simp add: marshalErrorBody_def jsonStruct_def jsonString_def)
  ultimately show ?thesis using trace body by simp
qed

theorem Json_marshal_failure_witness:
  "marshalChan () = Inl ''json: unsupported type: chan int''
   \<and> statusWrites (JsonOK marshalChan [] ()) = [500]
   \<and> statusWrites (Json marshalChan [] 404 ()) = [500]
   \<and> Contains (bodyWritten (JsonOK marshalChan [] ())) ''Error marshaling value''"
proof -
  have h: "marshalChan () = Inl ''json: unsupported type: chan int''"
    by (simp add: marshalChan_def)
  have ok: "statusWrites (Json marshalChan [] 200 ()) = statusWrites [] @ [500]"
    "Contains (bodyWritten (Json marshalChan [] 200 ())) ''Error marshaling value''"
    using Json_marshal_failure [where marshal = marshalChan and v = "()" and w = "[]"
        and status = 200, OF h]
    by blast+
  have notFound: "statusWrites (Json marshalChan [] 404 ()) = statusWrites [] @ [500]"
    using Json_marshal_failure [where marshal = marshalChan and v = "()" and w = "[]"
        and status = 404, OF h]
    by blast
  show ?thesis
    using h ok notFound by (simp add: JsonOK_def StatusOK_def)
qed

section \<open>Package requests: the bearer token\<close>

lemma toLowerByte_cases:
  "toLowerByte c = CHR ''b'' \<longleftrightarrow> c = CHR ''b'' \<or> c = CHR ''B''"
  "toLowerByte c = CHR ''e'' \<longleftrightarrow> c = CHR ''e'' \<or> c = CHR ''E''"
  "toLowerByte c = CHR ''a'' \<longleftrightarrow> c = CHR ''a'' \<or> c = CHR ''A''"
  "toLowerByte c = CHR ''r'' \<longleftrightarrow> c = CHR ''r'' \<or> c = CHR ''R''"
  by (auto simp: toLowerByte_def split: if_splits)

lemma ToLower_bearer: "ToLower s = ''bearer'' \<longleftrightarrow> caseInsensitiveBearer s"
  by (auto simp: ToLower_def caseInsensitiveBearer_def list_all2_Cons2 toLowerByte_cases)

text \<open>
  Claim C8. \<open>GetAuthorizationBearer\<close> gives the second token and no error exactly when
  the \<open>Authorization\<close> header splits at white space into two tokens, the first of which
  equals \<open>bearer\<close> case-insensitively. For every other shape (no token, one token, more
  than two, another scheme) it gives the empty string and the error
  \<open>invalid bearer authorization header\<close>; an absent header is such a shape. (The tokens
  of \<open>Fields\<close> are not empty and hold no ASCII white space, see \<open>Fields_tokens\<close>.)
\<close>

theorem bearer_token_shape:
  "GetAuthorizationBearer r =
     (case Fields (HeaderGet r ''Authorization'') of
        [scheme, token] \<Rightarrow>
          if caseInsensitiveBearer scheme then (token, None)
          else ([], Some ''invalid bearer authorization header'')
      | _ \<Rightarrow> ([], Some ''invalid bearer authorization header''))
   \<and> (rHeader r ''Authorization'' = [] \<longrightarrow>
        GetAuthorizationBearer r = ([], Some ''invalid bearer authorization header''))"
proof -
  have "Fields [] = []" by (simp add: Fields_def)
  then show ?thesis
    by (auto simp: GetAuthorizationBearer_def HeaderGet_def Let_def ToLower_bearer
        split: list.splits)
qed

theorem bearer_token_shape_witness:
  "GetAuthorizationBearer (bearerRequest ''Bearer my-secret-token'') = (''my-secret-token'', None)
   \<and> GetAuthorizationBearer (bearerRequest ''  bEARer   my-secret-token  '') = (''my-secret-token'', None)
   \<and> GetAuthorizationBearer (bearerRequest ''Bearer'') = ([], Some ''invalid bearer authorization header'')
   \<and> GetAuthorizationBearer (bearerRequest ''Bearer a b'') = ([], Some ''invalid bearer authorization header'')
   \<and> GetAuthorizationBearer (bearerRequest ''Basic my-secret-token'') = ([], Some ''invalid bearer authorization header'')
   \<and> rHeader emptyRequest ''Authorization'' = []
   \<and> GetAuthorizationBearer emptyRequest = ([], Some ''invalid bearer authorization header'')"
  using bearer_token_shape [of "bearerRequest ''Bearer my-secret-token''"]
    bearer_token_shape [of "bearerRequest ''  bEARer   my-secret-token  ''"]
    bearer_token_shape [of "bearerRequest ''Bearer''"]
    bearer_token_shape [of "bearerRequest ''Bearer a b''"]
    bearer_token_shape [of "bearerRequest ''Basic my-secret-token''"]
    bearer_token_shape [of emptyRequest]
  by (simp add: bearerRequest_def emptyRequest_def HeaderGet_def fields_eval
      caseInsensitiveBearer_def)

section \<open>Package requests: the delimited list of an absent parameter\<close>

lemma Split_empty_string: "sep \<noteq> [] \<Longrightarrow> Split [] sep = [[]]"
  by (simp add: Split_def splitLoop.simps)

lemma Split_not_empty: "sep \<noteq> [] \<Longrightarrow> Split s sep \<noteq> []"
  by (simp add: Split_def splitLoop.simps [of s sep] split: option.splits)

text \<open>
  Claim C10, as the code has it. For a separator that is not empty the result of
  \<open>GetStringListFromRequest\<close> is never the empty sequence, and when the form lookup of
  the name gives the empty string (the parameter is absent, or present and empty) the
  result is the sequence whose one element is the empty string.
\<close>

theorem absent_parameter_split:
  assumes "seperator \<noteq> []"
  shows "GetStringListFromRequest r name seperator \<noteq> []
         \<and> (FormValue r name = [] \<longrightarrow> GetStringListFromRequest r name seperator = [[]])"
  using assms by (simp add: GetStringListFromRequest_def Split_empty_string Split_not_empty)

theorem absent_parameter_split_witness:
  "FormValue emptyRequest ''input'' = [] \<and> '','' \<noteq> []
   \<and> GetStringListFromRequest emptyRequest ''input'' '','' = [[]]"
proof -
  have h: "FormValue emptyRequest ''input'' = []"
    by (simp add: FormValue_def emptyRequest_def)
  have s: "'','' \<noteq> []" by simp
  show ?thesis using h absent_parameter_split [OF s, of emptyRequest "''input''"] by simp
qed

text \<open>
  Claim C10 as stated, for every separator, fails at the empty separator: the result for
  an absent parameter is the empty sequence then.
\<close>

theorem absent_parameter_empty_separator:
  "FormValue emptyRequest ''input'' = []
   \<and> GetStringListFromRequest emptyRequest ''input'' [] = []"
  by (simp add: GetStringListFromRequest_def FormValue_def emptyRequest_def Split_def explode_def)

section \<open>Package requests: numeric sequences\<close>

lemma parseableEntries_Nil: "parseableEntries parse [] = []"
  by (simp add: parseableEntries_def)

lemma parseableEntries_Cons:
  "parseableEntries parse (v # values) =
     (case parse v of Inr x \<Rightarrow> x # parseableEntries parse values
                    | Inl e \<Rightarrow> parseableEntries parse values)"
  by (simp add: parseableEntries_def split: sum.splits)

lemma parseableEntries_none:
  "(\<forall>v \<in> set values. isl (parse v)) \<Longrightarrow> parseableEntries parse values = []"
  by (simp add: parseableEntries_def)

lemma intSliceLoop_eq:
  "intSliceLoop size' result values = result @ parseableEntries (\<lambda>v. ParseInt v size') values"
  by (induction "values" arbitrary: result)
     (simp_all add: parseableEntries_Nil parseableEntries_Cons split: sum.splits)

lemma uintSliceLoop_eq:
  "uintSliceLoop size' result values = result @ parseableEntries (\<lambda>v. ParseUint v size') values"
  by (induction "values" arbitrary: result)
     (simp_all add: parseableEntries_Nil parseableEntries_Cons split: sum.splits)

lemma floatSliceLoop_eq:
  "floatSliceLoop fl size' result values
     = result @ parseableEntries (\<lambda>v. ParseFloat fl v size') values"
  by (induction "values" arbitrary: result)
     (simp_all add: parseableEntries_Nil parseableEntries_Cons split: sum.splits)

lemma getIntSlice_eq:
  "getIntSlice r name size' = parseableEntries (\<lambda>v. ParseInt v size') (FormOf r name)"
  by (simp add: getIntSlice_def intSliceLoop_eq Let_def parseableEntries_Nil)

lemma getUintSlice_eq:
  "getUintSlice r name size' = parseableEntries (\<lambda>v. ParseUint v size') (FormOf r name)"
  by (simp add: getUintSlice_def uintSliceLoop_eq Let_def parseableEntries_Nil)

lemma getFloatSlice_eq:
  "getFloatSlice fl r name size' = parseableEntries (\<lambda>v. ParseFloat fl v size') (FormOf r name)"
  by (simp add: getFloatSlice_def floatSliceLoop_eq Let_def parseableEntries_Nil)

lemma parseDigits_bound:
  "parseDigits maxVal n s = Inr v \<Longrightarrow> n \<le> maxVal \<Longrightarrow> v \<le> maxVal"
  by (induction s arbitrary: n) (auto split: option.splits if_splits)

lemma ParseUint_bound: "ParseUint s bitSize = Inr v \<Longrightarrow> v \<le> 2 ^ bitSize - 1"
  by (auto simp: ParseUint_def split: if_splits dest: parseDigits_bound)

lemma ParseInt_bound:
  assumes "ParseInt s bitSize = Inr x"
  shows "- (2 ^ (bitSize - 1)) \<le> x \<and> x < 2 ^ (bitSize - 1)"
proof -
  from assms obtain c rest un where
    parts: "s = c # rest"
      "\<not> (c \<noteq> CHR ''-'' \<and> un \<ge> 2 ^ (bitSize - 1))"
      "\<not> (c = CHR ''-'' \<and> un > 2 ^ (bitSize - 1))"
      "x = (if c = CHR ''-'' then - int un else int un)"
    by (auto simp: ParseInt_def Let_def split: list.splits sum.splits NumError.splits if_splits)
  show ?thesis
  proof (cases "c = CHR ''-''")
    case True
    with parts have "un \<le> 2 ^ (bitSize - 1)" and "x = - int un" by auto
    then have "int un \<le> 2 ^ (bitSize - 1)"
      by (metis of_nat_le_iff of_nat_numeral of_nat_power)
    moreover have "(0::int) < 2 ^ (bitSize - 1)" by simp
    ultimately show ?thesis using \<open>x = - int un\<close> by linarith
  next
    case False
    with parts have "un < 2 ^ (bitSize - 1)" and "x = int un" by auto
    then have "int un < 2 ^ (bitSize - 1)"
      by (metis of_nat_less_iff of_nat_numeral of_nat_power)
    moreover have "(0::int) < 2 ^ (bitSize - 1)" by simp
    ultimately show ?thesis using \<open>x = int un\<close> by linarith
  qed
qed

lemma int32_ParseInt: "ParseInt s 32 = Inr x \<Longrightarrow> int32 x = x"
  by (drule ParseInt_bound) (simp add: int32_def)

lemma uint32_ParseUint: "ParseUint s 32 = Inr x \<Longrightarrow> uint32 x = x"
  by (drule ParseUint_bound) (simp add: uint32_def)

lemma map_parseableEntries_id:
  assumes "\<And>v x. parse v = Inr x \<Longrightarrow> f x = x"
  shows "map f (parseableEntries parse values) = parseableEntries parse values"
proof (induction "values")
  case Nil
  show ?case by (simp add: parseableEntries_Nil)
next
  case (Cons v vs)
  then show ?case
    by (cases "parse v") (simp_all add: parseableEntries_Cons assms)
qed

text \<open>
  Claim C9. For each of the eight numeric sequence types, \<open>GetFromRequest\<close> gives the
  parseable entries of the values that \<open>r.Form\<close> binds to the name, in their order
  (for \<open>[]float32\<close>, each converted by \<open>float32\<close>); the entries that do not parse are
  left out, and when none parses the result is the empty sequence. There is no error
  result.
\<close>

theorem numeric_slices_keep_parseable_entries:
  "GetFromRequest fl TIntSlice r name
     = VIntSlice (parseableEntries (\<lambda>v. ParseInt v 64) (FormOf r name))
   \<and> GetFromRequest fl TInt32Slice r name
     = VInt32Slice (parseableEntries (\<lambda>v. ParseInt v 32) (FormOf r name))
   \<and> GetFromRequest fl TInt64Slice r name
     = VInt64Slice (parseableEntries (\<lambda>v. ParseInt v 64) (FormOf r name))
   \<and> GetFromRequest fl TUintSlice r name
     = VUintSlice (parseableEntries (\<lambda>v. ParseUint v 64) (FormOf r name))
   \<and> GetFromRequest fl TUint32Slice r name
     = VUint32Slice (parseableEntries (\<lambda>v. ParseUint v 32) (FormOf r name))
   \<and> GetFromRequest fl TUint64Slice r name
     = VUint64Slice (parseableEntries (\<lambda>v. ParseUint v 64) (FormOf r name))
   \<and> GetFromRequest fl TFloat32Slice r name
     = VFloat32Slice (map (float32 fl) (parseableEntries (\<lambda>v. ParseFloat fl v 32) (FormOf r name)))
   \<and> GetFromRequest fl TFloat64Slice r name
     = VFloat64Slice (parseableEntries (\<lambda>v. ParseFloat fl v 64) (FormOf r name))
   \<and> ((\<forall>v \<in> set (FormOf r name). isl (ParseInt v 64)) \<longrightarrow>
        GetFromRequest fl TIntSlice r name = VIntSlice []
        \<and> GetFromRequest fl TInt64Slice r name = VInt64Slice [])
   \<and> ((\<forall>v \<in> set (FormOf r name). isl (ParseInt v 32)) \<longrightarrow>
        GetFromRequest fl TInt32Slice r name = VInt32Slice [])
   \<and> ((\<forall>v \<in> set (FormOf r name). isl (ParseUint v 64)) \<longrightarrow>
        GetFromRequest fl TUintSlice r name = VUintSlice []
        \<and> GetFromRequest fl TUint64Slice r name = VUint64Slice [])
   \<and> ((\<forall>v \<in> set (FormOf r name). isl (ParseUint v 32)) \<longrightarrow>
        GetFromRequest fl TUint32Slice r name = VUint32Slice [])
   \<and> ((\<forall>v \<in> set (FormOf r name). isl (ParseFloat fl v 32)) \<longrightarrow>
        GetFromRequest fl TFloat32Slice r name = VFloat32Slice [])
   \<and> ((\<forall>v \<in> set (FormOf r name). isl (ParseFloat fl v 64)) \<longrightarrow>
        GetFromRequest fl TFloat64Slice r name = VFloat64Slice [])"
proof -
  have i32: "map int32 (parseableEntries (\<lambda>v. ParseInt v 32) (FormOf r name))
        = parseableEntries (\<lambda>v. ParseInt v 32) (FormOf r name)"
    by (rule map_parseableEntries_id) (rule int32_ParseInt)
  have u32: "map uint32 (parseableEntries (\<lambda>v. ParseUint v 32) (FormOf r name))
        = parseableEntries (\<lambda>v. ParseUint v 32) (FormOf r name)"
    by (rule map_parseableEntries_id) (rule uint32_ParseUint)
  show ?thesis
    by (simp add: getIntSlice_eq getUintSlice_eq getFloatSlice_eq i32 u32 parseableEntries_none)
qed

theorem numeric_slices_keep_parseable_entries_witness:
  "FormOf (formAndPathRequest ''id'' [''7'', ''x'', ''-12'', '''', ''+3'', ''4000000000''] []) ''id''
     = [''7'', ''x'', ''-12'', '''', ''+3'', ''4000000000'']
   \<and> GetFromRequest decimalFloats TIntSlice
        (formAndPathRequest ''id'' [''7'', ''x'', ''-12'', '''', ''+3'', ''4000000000''] []) ''id''
     = VIntSlice [7, -12, 3, 4000000000]
   \<and> GetFromRequest decimalFloats TInt32Slice
        (formAndPathRequest ''id'' [''7'', ''x'', ''-12'', '''', ''+3'', ''4000000000''] []) ''id''
     = VInt32Slice [7, -12, 3]
   \<and> GetFromRequest decimalFloats TUint32Slice
        (formAndPathRequest ''id'' [''7'', ''x'', ''-12'', '''', ''+3'', ''4000000000''] []) ''id''
     = VUint32Slice [7, 4000000000]
   \<and> GetFromRequest decimalFloats TFloat64Slice
        (formAndPathRequest ''id'' [''7'', ''x'', ''-12'', '''', ''+3'', ''4000000000''] []) ''id''
     = VFloat64Slice [7, -12, 3, 4000000000]
   \<and> FormOf (formAndPathRequest ''id'' [''x'', ''1.5'', ''''] []) ''id'' = [''x'', ''1.5'', '''']
   \<and> isl (ParseInt ''x'' 64) \<and> isl (ParseInt ''1.5'' 64) \<and> isl (ParseInt '''' 64)
   \<and> GetFromRequest decimalFloats TIntSlice (formAndPathRequest ''id'' [''x'', ''1.5'', ''''] []) ''id''
     = VIntSlice []"
proof -
  let ?r = "formAndPathRequest ''id'' [''7'', ''x'', ''-12'', '''', ''+3'', ''4000000000''] []"
  let ?bad = "formAndPathRequest ''id'' [''x'', ''1.5'', ''''] []"
  have form: "FormOf ?r ''id'' = [''7'', ''x'', ''-12'', '''', ''+3'', ''4000000000'']"
    and formBad: "FormOf ?bad ''id'' = [''x'', ''1.5'', '''']"
    by (simp_all add: FormOf_def formAndPathRequest_def emptyRequest_def)
  have all_bad: "\<forall>v \<in> set (FormOf ?bad ''id''). isl (ParseInt v 64)"
    by (simp add: formBad parse_eval)
  have eval:
    "parseableEntries (\<lambda>v. ParseInt v 64) [''7'', ''x'', ''-12'', '''', ''+3'', ''4000000000''] = [7, -12, 3, 4000000000]"
    "parseableEntries (\<lambda>v. ParseInt v 32) [''7'', ''x'', ''-12'', '''', ''+3'', ''4000000000''] = [7, -12, 3]"
    "parseableEntries (\<lambda>v. ParseUint v 32) [''7'', ''x'', ''-12'', '''', ''+3'', ''4000000000''] = [7, 4000000000]"
    "parseableEntries (\<lambda>v. ParseFloat decimalFloats v 64) [''7'', ''x'', ''-12'', '''', ''+3'', ''4000000000'']
       = [7, -12, 3, 4000000000]"
    by (simp_all add: parseableEntries_Cons parseableEntries_Nil parse_eval decimalFloats_def)
  have bad: "GetFromRequest decimalFloats TIntSlice ?bad ''id'' = VIntSlice []"
    using numeric_slices_keep_parseable_entries [of decimalFloats ?bad "''id''"] all_bad
    by blast
  have good:
    "GetFromRequest decimalFloats TIntSlice ?r ''id''
       = VIntSlice (parseableEntries (\<lambda>v. ParseInt v 64) (FormOf ?r ''id''))"
    "GetFromRequest decimalFloats TInt32Slice ?r ''id''
       = VInt32Slice (parseableEntries (\<lambda>v. ParseInt v 32) (FormOf ?r ''id''))"
    "GetFromRequest decimalFloats TUint32Slice ?r ''id''
       = VUint32Slice (parseableEntries (\<lambda>v. ParseUint v 32) (FormOf ?r ''id''))"
    "GetFromRequest decimalFloats TFloat64Slice ?r ''id''
       = VFloat64Slice (parseableEntries (\<lambda>v. ParseFloat decimalFloats v 64) (FormOf ?r ''id''))"
    using numeric_slices_keep_parseable_entries [of decimalFloats ?r "''id''"]
    by blast+
  show ?thesis
    using all_bad by (simp add: good bad form formBad eval del: GetFromRequest.simps)
qed

section \<open>Package requests: scalars from the form and the path\<close>

text \<open>
  Claim C3, at the input where the code departs from it: the form binds the name to
  \<open>abc\<close>, which is not a number, and the route binds it to \<open>42\<close>. The claim gives the
  zero value; the numeric helpers parse the path value after the form value failed to
  parse, and give 42. The Boolean and the string case do as the claim says: the path
  value is read for an empty form value only.
\<close>

theorem numeric_scalar_prefers_parsable_path_value:
  "FormValue (formAndPathRequest ''n'' [''abc''] ''42'') ''n'' = ''abc''
   \<and> ParseInt ''abc'' 64 = Inl ErrSyntax
   \<and> PathValue (formAndPathRequest ''n'' [''abc''] ''42'') ''n'' = ''42''
   \<and> GetFromRequest noFloats TInt (formAndPathRequest ''n'' [''abc''] ''42'') ''n'' = VInt 42
   \<and> GetFromRequest noFloats TInt32 (formAndPathRequest ''n'' [''abc''] ''42'') ''n'' = VInt32 42
   \<and> GetFromRequest noFloats TInt64 (formAndPathRequest ''n'' [''abc''] ''42'') ''n'' = VInt64 42
   \<and> GetFromRequest noFloats TUint (formAndPathRequest ''n'' [''abc''] ''42'') ''n'' = VUint 42
   \<and> GetFromRequest noFloats TUint32 (formAndPathRequest ''n'' [''abc''] ''42'') ''n'' = VUint32 42
   \<and> GetFromRequest noFloats TUint64 (formAndPathRequest ''n'' [''abc''] ''42'') ''n'' = VUint64 42
   \<and> GetFromRequest noFloats TBool (formAndPathRequest ''n'' [''abc''] ''true'') ''n'' = VBool False
   \<and> GetFromRequest noFloats TString (formAndPathRequest ''n'' [''abc''] ''42'') ''n'' = VString ''abc''"
  by (simp add: formAndPathRequest_def emptyRequest_def FormValue_def PathValue_def getInt_def
      getUint_def parse_eval int32_def uint32_def ParseBool_def)

lemma getInt_rule:
  "getInt r name size' =
     (case ParseInt (FormValue r name) size' of
        Inr x \<Rightarrow> x
      | Inl e \<Rightarrow> (case ParseInt (PathValue r name) size' of Inr y \<Rightarrow> y | Inl e' \<Rightarrow> 0))"
  by (simp add: getInt_def)

section \<open>Package requests: decoding the body\<close>

text \<open>A body that cannot be read is reported before the header is looked at.\<close>

lemma ReadBody_read_failure:
  "rBody r = Inl e \<Longrightarrow>
     ReadBody dec r = (zeroValue dec, Some (''error reading request body: '' @ e))"
  by (simp add: ReadBody_def)

text \<open>
  Claim C7. Once the body is read, \<open>ReadBody\<close> decides on the value of the
  \<open>Content-Type\<close> header as a whole: \<open>application/json\<close> decodes the bytes as JSON into
  the target, \<open>application/xml\<close> as XML, and every other value, a parameterized one
  such as \<open>application/json; charset=utf-8\<close> included, gives the error
  \<open>unsupported content type\<close> followed by the value received.
\<close>

theorem ReadBody_dispatch:
  assumes "rBody r = Inr b"
  shows "(HeaderGet r ''Content-Type'' = ''application/json'' \<longrightarrow>
            ReadBody dec r =
              (case jsonUnmarshal dec b (zeroValue dec) of
                 (result, None) \<Rightarrow> (result, None)
               | (result, Some err) \<Rightarrow>
                   (result, Some (''error unmarshaling body to destination: '' @ err
                                  @ '', contents: '' @ b))))
         \<and> (HeaderGet r ''Content-Type'' = ''application/xml'' \<longrightarrow>
            ReadBody dec r =
              (case xmlUnmarshal dec b (zeroValue dec) of
                 (result, None) \<Rightarrow> (result, None)
               | (result, Some err) \<Rightarrow>
                   (result, Some (''error unmarshaling body to destination: '' @ err
                                  @ '', contents: '' @ b))))
         \<and> (HeaderGet r ''Content-Type'' \<noteq> ''application/json''
              \<and> HeaderGet r ''Content-Type'' \<noteq> ''application/xml'' \<longrightarrow>
            ReadBody dec r =
              (zeroValue dec,
               Some (''unsupported content type: '' @ HeaderGet r ''Content-Type'')))
         \<and> (HeaderGet r ''Content-Type'' = ''application/json; charset=utf-8'' \<longrightarrow>
            ReadBody dec r =
              (zeroValue dec, Some ''unsupported content type: application/json; charset=utf-8''))"
  using assms
  by (auto simp: ReadBody_def Let_def split: prod.splits option.splits)

theorem ReadBody_dispatch_witness:
  "rBody (bodyRequest ''application/json'' ''{}'') = Inr ''{}''
   \<and> ReadBody rawDecoders (bodyRequest ''application/json'' ''{}'') = (''{}'', None)
   \<and> ReadBody rawDecoders (bodyRequest ''application/json'' '''')
       = ('''', Some ''error unmarshaling body to destination: unexpected end of JSON input, contents: '')
   \<and> ReadBody rawDecoders (bodyRequest ''application/xml'' ''<a/>'') = (''<a/>'', None)
   \<and> ReadBody rawDecoders (bodyRequest ''text/plain'' ''text content'')
       = ('''', Some ''unsupported content type: text/plain'')
   \<and> ReadBody rawDecoders (bodyRequest ''application/json; charset=utf-8'' ''{}'')
       = ('''', Some ''unsupported content type: application/json; charset=utf-8'')"
proof -
  have body: "rBody (bodyRequest ct b) = Inr b" for ct b
    by (simp add: bodyRequest_def emptyRequest_def)
  have ct: "HeaderGet (bodyRequest ct b) ''Content-Type'' = ct" for ct b
    by (simp add: bodyRequest_def emptyRequest_def HeaderGet_def)
  show ?thesis
    using ReadBody_dispatch [where dec = rawDecoders and r = "bodyRequest ''application/json'' ''{}''" and b = "''{}''", OF body]
      ReadBody_dispatch [where dec = rawDecoders and r = "bodyRequest ''application/json'' ''''" and b = "''''", OF body]
      ReadBody_dispatch [where dec = rawDecoders and r = "bodyRequest ''application/xml'' ''<a/>''" and b = "''<a/>''", OF body]
      ReadBody_dispatch [where dec = rawDecoders and r = "bodyRequest ''text/plain'' ''text content''" and b = "''text content''", OF body]
      ReadBody_dispatch [where dec = rawDecoders and r = "bodyRequest ''application/json; charset=utf-8'' ''{}''" and b = "''{}''", OF body]
    by (simp add: body ct rawDecoders_def)
qed

section \<open>Package fileuploads: the size limit\<close>

lemma size_message_contains:
  "Contains (''file size of '' @ a @ '' bytes exceeds the limit of '' @ b @ '' bytes'')
     ''exceeds the limit''"
  "Contains (''file size of '' @ a @ '' bytes exceeds the limit of '' @ b @ '' bytes'') a"
  "Contains (''file size of '' @ a @ '' bytes exceeds the limit of '' @ b @ '' bytes'') b"
proof -
  let ?msg = "''file size of '' @ a @ '' bytes exceeds the limit of '' @ b @ '' bytes''"
  have "?msg = (''file size of '' @ a @ '' bytes '') @ ''exceeds the limit'' @ ('' of '' @ b @ '' bytes'')"
    by simp
  then show "Contains ?msg ''exceeds the limit''"
    unfolding Contains_iff by blast
  have "?msg = ''file size of '' @ a @ ('' bytes exceeds the limit of '' @ b @ '' bytes'')"
    by simp
  then show "Contains ?msg a"
    unfolding Contains_iff by blast
  have "?msg = (''file size of '' @ a @ '' bytes exceeds the limit of '') @ b @ '' bytes''"
    by simp
  then show "Contains ?msg b"
    unfolding Contains_iff by blast
qed

text \<open>
  Claim C5. For a request whose multipart form parses and holds the field, when the
  declared size of the file is above the maximum, \<open>ReadUploadedFile\<close> returns the error
  \<open>file size of N bytes exceeds the limit of M bytes\<close>, with the size and the maximum in
  it, the state the callback works on is as before and the result is the same for any
  other callback: the callback is not invoked. A declared size up to the maximum, the
  maximum itself included, passes the check: the result is the callback's.
\<close>

theorem oversized_upload_rejected:
  assumes "rMultipart r (MaxFileSize (applyOptions options)) = Inr parts"
    and "FormFile parts fieldName = Inr (stream, fh)"
  shows "(fhSize fh > MaxFileSize (applyOptions options) \<longrightarrow>
            ReadUploadedFile fieldName r callback options st
              = Return (Some (''file size of '' @ sprintInt (fhSize fh)
                              @ '' bytes exceeds the limit of ''
                              @ sprintInt (MaxFileSize (applyOptions options)) @ '' bytes''), st)
            \<and> ReadUploadedFile fieldName r callback options st
                = ReadUploadedFile fieldName r callback' options st
            \<and> (\<exists>msg. ReadUploadedFile fieldName r callback options st = Return (Some msg, st)
                  \<and> Contains msg ''exceeds the limit''
                  \<and> Contains msg (sprintInt (fhSize fh))
                  \<and> Contains msg (sprintInt (MaxFileSize (applyOptions options)))))
         \<and> (fhSize fh \<le> MaxFileSize (applyOptions options) \<longrightarrow>
            ReadUploadedFile fieldName r callback options st
              = callback (zeroFileUpload\<lparr>File := Some stream, info := Some fh\<rparr>)
                  (applyOptions options) st)"
proof -
  let ?msg = "''file size of '' @ sprintInt (fhSize fh) @ '' bytes exceeds the limit of ''
              @ sprintInt (MaxFileSize (applyOptions options)) @ '' bytes''"
  have over: "ReadUploadedFile fieldName r cb options st = Return (Some ?msg, st)"
    if "fhSize fh > MaxFileSize (applyOptions options)" for cb
    using assms that by (simp add: ReadUploadedFile_def Let_def)
  have within: "ReadUploadedFile fieldName r callback options st
        = callback (zeroFileUpload\<lparr>File := Some stream, info := Some fh\<rparr>)
            (applyOptions options) st"
    if "fhSize fh \<le> MaxFileSize (applyOptions options)"
    using assms that by (simp add: ReadUploadedFile_def Let_def)
  have contains: "Contains ?msg ''exceeds the limit''" "Contains ?msg (sprintInt (fhSize fh))"
    "Contains ?msg (sprintInt (MaxFileSize (applyOptions options)))"
    by (rule size_message_contains)+
  show ?thesis
  proof (intro conjI impI)
    assume big: "fhSize fh > MaxFileSize (applyOptions options)"
    show "ReadUploadedFile fieldName r callback options st = Return (Some ?msg, st)"
      by (rule over [OF big])
    show "ReadUploadedFile fieldName r callback options st
            = ReadUploadedFile fieldName r callback' options st"
      by (simp only: over [OF big])
    show "\<exists>msg. ReadUploadedFile fieldName r callback options st = Return (Some msg, st)
                  \<and> Contains msg ''exceeds the limit''
                  \<and> Contains msg (sprintInt (fhSize fh))
                  \<and> Contains msg (sprintInt (MaxFileSize (applyOptions options)))"
      using over [OF big, of callback] contains by blast
  next
    assume "fhSize fh \<le> MaxFileSize (applyOptions options)"
    then show "ReadUploadedFile fieldName r callback options st
        = callback (zeroFileUpload\<lparr>File := Some stream, info := Some fh\<rparr>)
            (applyOptions options) st"
      by (rule within)
  qed
qed

theorem oversized_upload_rejected_witness:
  "ReadUploadedFile ''testfile''
     (multipartRequest ''testfile'' ''large.txt'' ''this content is definitely larger than 5 bytes'')
     countingCallback [WithMaxFileSize 5] 0
     = Return (Some ''file size of 46 bytes exceeds the limit of 5 bytes'', 0)
   \<and> ReadUploadedFile ''testfile'' (multipartRequest ''testfile'' ''five.txt'' ''12345'')
       countingCallback [WithMaxFileSize 5] 0
     = Return (None, 1)"
proof -
  let ?big = "multipartRequest ''testfile'' ''large.txt''
                ''this content is definitely larger than 5 bytes''"
  let ?bigHeader = "\<lparr>fhFilename = ''large.txt'', fhSize = 46,
                     fhOpen = Inr ''this content is definitely larger than 5 bytes''\<rparr>"
  let ?five = "multipartRequest ''testfile'' ''five.txt'' ''12345''"
  let ?fiveHeader = "\<lparr>fhFilename = ''five.txt'', fhSize = 5, fhOpen = Inr ''12345''\<rparr>"
  let ?parts = "\<lambda>name content key. if key = ''testfile''
      then [\<lparr>fhFilename = name, fhSize = int (length content), fhOpen = Inr content\<rparr>] else []"
  have opts: "MaxFileSize (applyOptions [WithMaxFileSize 5]) = 5"
    by (simp add: applyOptions_def WithMaxFileSize_def)
  have big: "rMultipart ?big (MaxFileSize (applyOptions [WithMaxFileSize 5]))
               = Inr (?parts ''large.txt'' ''this content is definitely larger than 5 bytes'')"
    and five: "rMultipart ?five (MaxFileSize (applyOptions [WithMaxFileSize 5]))
               = Inr (?parts ''five.txt'' ''12345'')"
    by (simp_all add: multipartRequest_def emptyRequest_def)
  have bigFile: "FormFile (?parts ''large.txt'' ''this content is definitely larger than 5 bytes'')
                   ''testfile''
                 = Inr (''this content is definitely larger than 5 bytes'', ?bigHeader)"
    and fiveFile: "FormFile (?parts ''five.txt'' ''12345'') ''testfile'' = Inr (''12345'', ?fiveHeader)"
    by (simp_all add: FormFile_def)
  have over: "fhSize ?bigHeader > MaxFileSize (applyOptions [WithMaxFileSize 5])"
    and equal: "fhSize ?fiveHeader \<le> MaxFileSize (applyOptions [WithMaxFileSize 5])"
    by (simp_all add: opts)
  have "ReadUploadedFile ''testfile'' ?big countingCallback [WithMaxFileSize 5] 0
          = Return (Some (''file size of '' @ sprintInt (fhSize ?bigHeader)
                          @ '' bytes exceeds the limit of ''
                          @ sprintInt (MaxFileSize (applyOptions [WithMaxFileSize 5]))
                          @ '' bytes''), 0)"
    using oversized_upload_rejected [OF big bigFile, of countingCallback 0] over by blast
  moreover have "ReadUploadedFile ''testfile'' ?five countingCallback [WithMaxFileSize 5] 0
          = countingCallback (zeroFileUpload\<lparr>File := Some ''12345'', info := Some ?fiveHeader\<rparr>)
              (applyOptions [WithMaxFileSize 5]) 0"
    using oversized_upload_rejected [OF five fiveFile, of countingCallback 0] equal by blast
  ultimately show ?thesis
    by (simp add: opts sprintInt_def showNat.simps countingCallback_def)
qed

section \<open>Package fileuploads: the steps of the upload to a directory\<close>






section \<open>Package fileuploads: the check on the destination path\<close>

text \<open>
  What the check gives: a saved file name that is set has the cleaned destination
  directory as a prefix of its characters, and comes with no error.
\<close>

lemma uploadCallback_saved_file:
  assumes "uploadCallback ext destDir tmpl file opts (res0, fs) = Return (err, res, fs')"
    and "SavedFile file = []" and "SavedFile res \<noteq> []"
  shows "HasPrefix (SavedFile res) (Clean destDir) \<and> err = None"
proof -
  from assms(1) obtain fh where opened: "info file = Some fh"
    by (cases "info file") (simp_all add: uploadCallback_def)
  from assms(1) opened obtain rnd where
    rnd: "randomString (randIntn ext) (RandomStringSize opts) = Return rnd"
    by (cases "randomString (randIntn ext) (RandomStringSize opts)")
       (simp_all add: uploadCallback_def)
  from assms rnd opened obtain tt where parse: "templateParse ext tmpl = Inr tt"
    by (cases "templateParse ext tmpl") (auto simp: uploadCallback_def Let_def)
  from assms rnd opened parse obtain destFileName where
    exec: "templateExecute ext tt (templateData fh rnd) = Inr destFileName"
    by (cases "templateExecute ext tt (templateData fh rnd)")
       (auto simp: uploadCallback_def Let_def)
  from assms rnd opened parse exec
  have guard: "HasPrefix (Join [destDir, destFileName]) (Clean destDir)"
    by (cases "HasPrefix (Join [destDir, destFileName]) (Clean destDir)")
       (auto simp: uploadCallback_def Let_def simp del: Join.simps)
  from assms rnd opened parse exec guard obtain fs1 where
    create: "osCreate ext (Join [destDir, destFileName]) fs = Inr fs1"
    by (cases "osCreate ext (Join [destDir, destFileName]) fs")
       (auto simp: uploadCallback_def Let_def simp del: Join.simps)
  from assms rnd opened parse exec guard create obtain stream where
    stream: "File file = Some stream"
    by (cases "File file") (auto simp: uploadCallback_def Let_def simp del: Join.simps)
  from assms rnd opened parse exec guard create stream
  have "SavedFile res = Join [destDir, destFileName] \<and> err = None"
    by (cases "ioCopy ext (Join [destDir, destFileName]) stream fs1")
       (auto simp: uploadCallback_def Let_def split: option.splits sum.splits simp del: Join.simps)
  with guard show ?thesis by simp
qed

lemma saved_file_keeps_cleaned_prefix:
  assumes "UploadFileToDir ext fieldName r destDir tmpl options fs = Return ((result, err), fs')"
    and "SavedFile result \<noteq> []"
  shows "HasPrefix (SavedFile result) (Clean destDir) \<and> err = None"
proof -
  from assms obtain upload where
    "uploadCallback ext destDir tmpl upload (applyOptions options) (zeroFileUpload, fs)
       = Return (err, result, fs')"
    and "SavedFile upload = []"
    by (auto simp: UploadFileToDir_def ReadUploadedFile_def Let_def zeroFileUpload_def
        split: sum.splits prod.splits if_splits outcome.splits)
  then show ?thesis
    using assms(2) by (rule uploadCallback_saved_file)
qed

text \<open>
  Claim C1, at an input where the code departs from it. The destination directory is
  \<open>/data/dest\<close> and the template renders \<open>../dest-evil/data.csv\<close>. The joined path
  \<open>/data/dest-evil/data.csv\<close> starts with the characters of \<open>/data/dest\<close>, so the check
  lets it pass; the upload succeeds, the saved path is set, and the file is created in
  the sibling directory \<open>/data/dest-evil\<close>, not inside \<open>/data/dest\<close>.
\<close>

theorem prefix_guard_admits_sibling_directory:
  "UploadFileToDir memExternals ''upload'' (multipartRequest ''upload'' ''data.csv'' ''col1,col2'')
     ''/data/dest'' ''../dest-evil/{{.baseFileName}}'' [] sampleFS
     = Return ((zeroFileUpload\<lparr>File := Some ''col1,col2'',
                  info := Some \<lparr>fhFilename = ''data.csv'', fhSize = 9, fhOpen = Inr ''col1,col2''\<rparr>,
                  Ext := ''.csv'', SavedFile := ''/data/dest-evil/data.csv'',
                  SavedFilePath := ''/data/dest-evil/data.csv''\<rparr>, None),
               sampleFS\<lparr>files := [(''/data/dest-evil/data.csv'', ''col1,col2'')]\<rparr>)
   \<and> Join [''/data/dest'', ''../dest-evil/data.csv''] = ''/data/dest-evil/data.csv''
   \<and> Clean ''/data/dest'' = ''/data/dest''
   \<and> HasPrefix ''/data/dest-evil/data.csv'' ''/data/dest''
   \<and> insideDir ''/data/dest'' ''/data/dest-evil/data.csv'' = False
   \<and> insideDir ''/data/dest-evil'' ''/data/dest-evil/data.csv'' = True"
  by (simp add: UploadFileToDir_def ReadUploadedFile_def uploadCallback_def applyOptions_def
      multipartRequest_def emptyRequest_def FormFile_def zeroFileUpload_def mem_eval path_eval
      template_eval insideDir_def cleanElems_def upt_conv_Cons Let_def)

end
